theory Spec2Isabelle
  imports Complex_Main
begin

section \<open>Data model of \<open>coreTable/OwidTable.ts\<close>\<close>

text \<open>
  The theory embeds the class \<open>OwidTable\<close>: its selection methods, its filters, the
  closest-time matching, the percentage and growth transforms and the ingestion of legacy
  variables.  What the class calls outside its own file (\<open>AbstractCoreTable\<close> and
  \<open>AbstractCoreColumn\<close> of CoreTable.ts, the helpers of grapher/utils/Util, the population
  map and the epoch date) is either a parameter of the definition that uses it or a
  definition whose comment begins with the words "Modelled from the spec".
\<close>

text \<open>
  A JavaScript number is a double: a finite value, taken as a real, or one of the three
  special values of IEEE arithmetic.  The sign of zero is not represented.
\<close>

datatype number = Fin real | PosInf | NegInf | NaN

text \<open>
  An arithmetic operation on two finite doubles returns the exact result rounded to a
  double, or an infinity when the exact result is too large for one.  This rounding is a
  parameter \<open>fl\<close> of the arithmetic and of every method that computes with numbers: the
  statements below hold for every rounding, that of IEEE arithmetic among them.
\<close>

type_synonym rounding = "real \<Rightarrow> number"

type_synonym ColumnSlug = string
type_synonym EntityName = string
type_synonym EntityCode = string
type_synonym EntityId = int

datatype ColumnTypeNames =
  Numeric | String | Categorical | Year | Date | Percentage | RelativePercentage
  | PercentChangeOverTime | Currency | Population

text \<open>\<open>LegacyVariableDisplayConfigInterface\<close>: the display fields the table code reads.\<close>

record LegacyVariableDisplayConfig =
  yearIsDay :: "bool option"
  zeroDay :: "string option"
  entityAnnotationsMap :: "string option"
  conversionFactor :: "number option"

text \<open>
  \<open>OwidColumnSpec\<close>: the fields the table code reads or writes.  The descriptive metadata
  (unit, description, coverage, dataset, source) is copied through unchanged by the source
  and is left out.
\<close>

record OwidColumnSpec =
  slug :: ColumnSlug
  name :: "string option"
  type :: ColumnTypeNames
  display :: "LegacyVariableDisplayConfig option"
  owidVariableId :: "int option"
  isDailyMeasurement :: "bool option"

text \<open>
  \<open>interface OwidRow extends CoreRow\<close>: the three entity fields are typed; every other
  column of the row (\<open>time\<close>, \<open>year\<close>, \<open>day\<close>, \<open>date\<close> and the value columns) is read
  by slug and holds a number or is absent (\<open>undefined\<close>).  Annotation columns hold text.
\<close>

record OwidRow =
  entityName :: EntityName
  entityCode :: "EntityCode option"
  entityId :: EntityId
  cells :: "ColumnSlug \<rightharpoonup> number"
  annotations :: "ColumnSlug \<rightharpoonup> string"

text \<open>
  A row object is identified by reference in the source (\<open>Set<OwidRow>\<close>).  Within one
  table the identity of a row is its position, so a reference is the pair of position and
  content.
\<close>

type_synonym RowRef = "nat \<times> OwidRow"

datatype error = TypeError | ReferentialIntegrityError EntityId int

text \<open>
  The table: its rows, its column specs, the selection (\<open>selectedRows\<close>, a \<open>Set\<close> of row
  references kept in insertion order) and the slug of the time column
  (\<open>this.timeColumn\<close> of \<open>AbstractCoreTable\<close>, which may be undefined).
\<close>

record OwidTable =
  rows :: "OwidRow list"
  specs :: "OwidColumnSpec list"
  selectedRows :: "RowRef list"
  timeColumn :: "ColumnSlug option"

subsection \<open>JavaScript arithmetic on numbers\<close>

definition signedInf :: "real \<Rightarrow> number" where
  "signedInf s = (if 0 < s then PosInf else if s < 0 then NegInf else NaN)"

fun signOf :: "number \<Rightarrow> real" where
  "signOf (Fin a) = sgn a"
| "signOf PosInf = 1"
| "signOf NegInf = - 1"
| "signOf NaN = 0"

text \<open>\<open>ToNumber\<close> of a cell: \<open>undefined\<close> converts to \<open>NaN\<close>.\<close>

fun toNumber :: "number option \<Rightarrow> number" where
  "toNumber None = NaN"
| "toNumber (Some n) = n"

text \<open>
  \<open>a + b\<close>, \<open>a * b\<close> and \<open>a / b\<close>.  Only the result of an operation on two finite
  numbers is rounded (a division by zero has no finite result); the other cases are those
  of IEEE arithmetic on infinities and \<open>NaN\<close>.
\<close>

fun js_add :: "rounding \<Rightarrow> number \<Rightarrow> number \<Rightarrow> number" where
  "js_add fl (Fin a) (Fin b) = fl (a + b)"
| "js_add fl NaN _ = NaN"
| "js_add fl _ NaN = NaN"
| "js_add fl PosInf NegInf = NaN"
| "js_add fl NegInf PosInf = NaN"
| "js_add fl PosInf _ = PosInf"
| "js_add fl _ PosInf = PosInf"
| "js_add fl NegInf _ = NegInf"
| "js_add fl _ NegInf = NegInf"

fun js_mul :: "rounding \<Rightarrow> number \<Rightarrow> number \<Rightarrow> number" where
  "js_mul fl (Fin a) (Fin b) = fl (a * b)"
| "js_mul fl NaN _ = NaN"
| "js_mul fl _ NaN = NaN"
| "js_mul fl a b = signedInf (signOf a * signOf b)"

fun js_div :: "rounding \<Rightarrow> number \<Rightarrow> number \<Rightarrow> number" where
  "js_div fl (Fin a) (Fin b) = (if b = 0 then signedInf a else fl (a / b))"
| "js_div fl NaN _ = NaN"
| "js_div fl _ NaN = NaN"
| "js_div fl (Fin a) _ = Fin 0"
| "js_div fl a (Fin b) = signedInf (signOf a * (if b < 0 then - 1 else 1))"
| "js_div fl _ _ = NaN"

text \<open>\<open>a >= b\<close> on numbers: false as soon as one side is \<open>NaN\<close>.\<close>

fun js_ge :: "number \<Rightarrow> number \<Rightarrow> bool" where
  "js_ge (Fin a) (Fin b) = (b \<le> a)"
| "js_ge NaN _ = False"
| "js_ge _ NaN = False"
| "js_ge PosInf _ = True"
| "js_ge _ NegInf = True"
| "js_ge _ _ = False"

text \<open>\<open>!pop\<close>: \<open>undefined\<close>, \<open>0\<close> and \<open>NaN\<close> are falsy.\<close>

fun falsy :: "number option \<Rightarrow> bool" where
  "falsy None = True"
| "falsy (Some (Fin a)) = (a = 0)"
| "falsy (Some NaN) = True"
| "falsy (Some _) = False"

text \<open>\<open>a ?? b\<close>\<close>

definition nullish :: "'a option \<Rightarrow> 'a option \<Rightarrow> 'a option" where
  "nullish a b = (case a of None \<Rightarrow> b | Some v \<Rightarrow> Some v)"

text \<open>
  \<open>parseInt\<close> on a number cell: the integer part of a finite number, \<open>NaN\<close> otherwise
  (exact for the magnitudes a time value takes).
\<close>

fun parseInt :: "number option \<Rightarrow> number" where
  "parseInt (Some (Fin x)) = Fin (of_int (if x < 0 then \<lceil>x\<rceil> else \<lfloor>x\<rfloor>))"
| "parseInt _ = NaN"

text \<open>\<open>const rowTime = (row) => parseInt(row.time ?? row.year ?? row.day ?? row.date)\<close>\<close>

definition rowTime :: "OwidRow \<Rightarrow> number" where
  "rowTime row =
     parseInt (nullish (cells row ''time'') (nullish (cells row ''year'')
       (nullish (cells row ''day'') (cells row ''date''))))"

subsection \<open>Insertion-ordered sets and the row indices\<close>

text \<open>\<open>Array.from(new Set(xs))\<close>: the distinct elements in order of first occurrence.\<close>

definition uniq :: "'a list \<Rightarrow> 'a list" where
  "uniq xs = rev (remdups (rev xs))"

text \<open>The rows of a table together with their identities.\<close>

definition rowRefs :: "OwidTable \<Rightarrow> RowRef list" where
  "rowRefs t = enumerate 0 (rows t)"

text \<open>
  \<open>rowsBy(property)\<close>: a \<open>Map\<close> from the value of the property to the rows having it, in
  table order.  A key with no row is not in the map.
\<close>

definition rowsBy :: "(OwidRow \<Rightarrow> 'k) \<Rightarrow> OwidTable \<Rightarrow> 'k \<rightharpoonup> RowRef list" where
  "rowsBy property t key =
     (let rs = filter (\<lambda>ref. property (snd ref) = key) (rowRefs t)
      in if rs = [] then None else Some rs)"

definition rowsByEntityName :: "OwidTable \<Rightarrow> EntityName \<rightharpoonup> RowRef list" where
  "rowsByEntityName t = rowsBy entityName t"

definition rowsByTime :: "ColumnSlug \<Rightarrow> OwidTable \<Rightarrow> number option \<rightharpoonup> RowRef list" where
  "rowsByTime timeSlug t = rowsBy (\<lambda>row. cells row timeSlug) t"

definition availableEntityNames :: "OwidTable \<Rightarrow> EntityName list" where
  "availableEntityNames t = uniq (map entityName (rows t))"

subsection \<open>Selection\<close>

text \<open>
  Modelled from the spec: \<open>isSelected\<close> of \<open>AbstractCoreTable\<close> (CoreTable.ts is not among
  the sources).  The selection state is a set of row identities marking the currently
  selected rows.
\<close>

definition isSelected :: "OwidTable \<Rightarrow> RowRef \<Rightarrow> bool" where
  "isSelected t ref = (ref \<in> set (selectedRows t))"

text \<open>
  Modelled from the spec: \<open>clearSelection\<close> of \<open>AbstractCoreTable\<close> (CoreTable.ts is not
  among the sources): it empties the selection in place.
\<close>

definition clearSelection :: "OwidTable \<Rightarrow> OwidTable" where
  "clearSelection t = t\<lparr>selectedRows := []\<rparr>"

text \<open>
  Modelled from the spec: \<open>selectRows\<close> of \<open>AbstractCoreTable\<close> (CoreTable.ts is not among
  the sources): it adds the rows to the selection set in place and returns the table for
  chaining.
\<close>

definition selectRows :: "RowRef list \<Rightarrow> OwidTable \<Rightarrow> OwidTable" where
  "selectRows refs t = t\<lparr>selectedRows := uniq (selectedRows t @ refs)\<rparr>"

text \<open>
  Modelled from the spec: \<open>deselectRows\<close> of \<open>AbstractCoreTable\<close> (CoreTable.ts is not
  among the sources): it removes the rows from the selection set in place and returns the
  table for chaining.
\<close>

definition deselectRows :: "RowRef list \<Rightarrow> OwidTable \<Rightarrow> OwidTable" where
  "deselectRows refs t = t\<lparr>selectedRows := filter (\<lambda>r. r \<notin> set refs) (selectedRows t)\<rparr>"

definition selectedEntityNameSet :: "OwidTable \<Rightarrow> EntityName list" where
  "selectedEntityNameSet t = uniq (map (\<lambda>ref. entityName (snd ref)) (selectedRows t))"

definition selectedEntityNames :: "OwidTable \<Rightarrow> EntityName list" where
  "selectedEntityNames t = selectedEntityNameSet t"

definition isEntitySelected :: "OwidTable \<Rightarrow> EntityName \<Rightarrow> bool" where
  "isEntitySelected t ename = (ename \<in> set (selectedEntityNameSet t))"

text \<open>
  \<open>setSelectedEntities(entityNames)\<close>.  The array may hold \<open>undefined\<close> (the by-id variant
  passes \<open>map.get(id)!\<close>), which no row's entity name equals.
\<close>

definition setSelectedEntities :: "EntityName option list \<Rightarrow> OwidTable \<Rightarrow> OwidTable" where
  "setSelectedEntities entityNames t =
     selectRows (filter (\<lambda>ref. Some (entityName (snd ref)) \<in> set entityNames) (rowRefs t))
       (clearSelection t)"

definition copySelectionFrom :: "OwidTable \<Rightarrow> OwidTable \<Rightarrow> OwidTable" where
  "copySelectionFrom other t = setSelectedEntities (map Some (selectedEntityNames other)) t"

definition selectEntity :: "EntityName \<Rightarrow> OwidTable \<Rightarrow> OwidTable" where
  "selectEntity ename t =
     selectRows (case rowsByEntityName t ename of None \<Rightarrow> [] | Some rs \<Rightarrow> rs) t"

definition deselectEntity :: "EntityName \<Rightarrow> OwidTable \<Rightarrow> OwidTable" where
  "deselectEntity ename t =
     deselectRows (case rowsByEntityName t ename of None \<Rightarrow> [] | Some rs \<Rightarrow> rs) t"

subsection \<open>Construction and filtering\<close>

text \<open>
  Modelled from the spec: the constructor \<open>new OwidTable(rows, specs, parent, description)\<close>
  of \<open>AbstractCoreTable\<close> (CoreTable.ts is not among the sources).  A child table takes
  from its parent what \<open>copySelectionFrom\<close> copies: the parent's selected entity names,
  resolved against the child's own rows.  The lineage pointer and the description are
  diagnostics only and are left out; the time column is found from the specs and is
  carried over.
\<close>

definition newOwidTable :: "OwidRow list \<Rightarrow> OwidColumnSpec list \<Rightarrow> OwidTable \<Rightarrow> OwidTable" where
  "newOwidTable rs sp parent =
     copySelectionFrom parent
       \<lparr>rows = rs, specs = sp, selectedRows = [], timeColumn = timeColumn parent\<rparr>"

text \<open>
  Modelled from the spec: \<open>filterBy(predicate, description)\<close> of \<open>AbstractCoreTable\<close>
  (CoreTable.ts is not among the sources): it applies the predicate to every row in the
  original order, drops the rows that fail, keeps all column specs and never reorders the
  surviving rows; the parent of the result is the table itself.
\<close>

definition filterBy :: "(RowRef \<Rightarrow> bool) \<Rightarrow> OwidTable \<Rightarrow> OwidTable" where
  "filterBy predicate t =
     newOwidTable (map snd (filter predicate (rowRefs t))) (specs t) t"

definition filterBySelectedOnly :: "OwidTable \<Rightarrow> OwidTable" where
  "filterBySelectedOnly t = filterBy (\<lambda>row. isSelected t row) t"

text \<open>
  \<open>filterByPopulation(minPop)\<close>.  \<open>populationMap\<close> is the static table of PopulationMap.ts,
  which is not among the sources: it is a parameter.
\<close>

definition filterByPopulation :: "(EntityName \<rightharpoonup> number) \<Rightarrow> number \<Rightarrow> OwidTable \<Rightarrow> OwidTable" where
  "filterByPopulation populationMap minPop t =
     filterBy (\<lambda>row.
        let ename = entityName (snd row);
            pop = populationMap ename
        in falsy pop \<or> isSelected t row \<or> js_ge (toNumber pop) minPop) t"

subsection \<open>Closest-time matching\<close>

text \<open>
  Modelled from the spec: the tolerance test of \<open>findClosestTimeIndex\<close> (grapher/utils/Util
  is not among the sources): the time is a number whose absolute difference from the
  target is at most the tolerance.
\<close>

definition withinTolerance :: "real \<Rightarrow> real \<Rightarrow> number option \<Rightarrow> bool" where
  "withinTolerance target tol c =
     (case c of Some (Fin x) \<Rightarrow> \<bar>x - target\<bar> \<le> tol | _ \<Rightarrow> False)"

text \<open>
  Modelled from the spec: the preference of \<open>findClosestTimeIndex\<close> (grapher/utils/Util is
  not among the sources) for a time \<open>x\<close> over a time \<open>y\<close>: \<open>x\<close> is closer to the target, or
  equally close and later.
\<close>

definition closerOrLater :: "real \<Rightarrow> real \<Rightarrow> real \<Rightarrow> bool" where
  "closerOrLater target x y =
     (\<bar>x - target\<bar> < \<bar>y - target\<bar> \<or> (\<bar>x - target\<bar> = \<bar>y - target\<bar> \<and> y < x))"

text \<open>The same order with equal times allowed; it is used in the proofs.\<close>

definition atLeastAsGood :: "real \<Rightarrow> real \<Rightarrow> real \<Rightarrow> bool" where
  "atLeastAsGood target x y =
     (\<bar>x - target\<bar> < \<bar>y - target\<bar> \<or> (\<bar>x - target\<bar> = \<bar>y - target\<bar> \<and> y \<le> x))"

text \<open>
  Modelled from the spec: the scan of \<open>findClosestTimeIndex\<close> (grapher/utils/Util is not
  among the sources).  It goes through the times in order and keeps the position of the
  best candidate so far: a time within tolerance (absolute difference at most the
  tolerance) replaces the candidate when it is closer to the target, or equally close and
  later.
\<close>

fun closestScan :: "real \<Rightarrow> real \<Rightarrow> nat \<Rightarrow> (nat \<times> real) option \<Rightarrow> number option list
    \<Rightarrow> (nat \<times> real) option" where
  "closestScan target tol i best [] = best"
| "closestScan target tol i best (c # cs) =
     closestScan target tol (Suc i)
       (case c of
          Some (Fin x) \<Rightarrow>
            if \<bar>x - target\<bar> \<le> tol \<and>
               (case best of None \<Rightarrow> True | Some (j, y) \<Rightarrow> closerOrLater target x y)
            then Some (i, x) else best
        | _ \<Rightarrow> best) cs"

text \<open>
  Modelled from the spec: \<open>findClosestTimeIndex(times, targetTime, tolerance)\<close>
  (grapher/utils/Util is not among the sources): the index of the time closest to
  \<open>targetTime\<close> and within \<open>tolerance\<close>, ties broken in favour of the later time;
  \<open>undefined\<close> when no time is within tolerance.
\<close>

definition findClosestTimeIndex :: "number option list \<Rightarrow> real \<Rightarrow> real \<Rightarrow> nat option" where
  "findClosestTimeIndex timeValues targetTime tolerance =
     map_option fst (closestScan targetTime tolerance 0 None timeValues)"

text \<open>
  The body of the \<open>forEach\<close> of \<open>filterByTargetTime\<close>: the rows it adds to \<open>matchingRows\<close>
  for one entity name.  \<open>rows[rowIndex]\<close> past the end of the array is \<open>undefined\<close>, which
  is no row of the table.
\<close>

definition matchingRowFor :: "OwidTable \<Rightarrow> ColumnSlug \<Rightarrow> real \<Rightarrow> real \<Rightarrow> EntityName \<Rightarrow> RowRef list" where
  "matchingRowFor t timeSlug targetTime tolerance ename =
     (let rs = (case rowsByEntityName t ename of None \<Rightarrow> [] | Some rs \<Rightarrow> rs)
      in case findClosestTimeIndex (map (\<lambda>row. cells (snd row) timeSlug) rs) targetTime tolerance of
           None \<Rightarrow> []
         | Some rowIndex \<Rightarrow> if rowIndex < length rs then [rs ! rowIndex] else [])"

text \<open>\<open>filterByTargetTime\<close>; \<open>this.timeColumn.slug\<close> throws when the table has no time column.\<close>

definition filterByTargetTime :: "real \<Rightarrow> real \<Rightarrow> OwidTable \<Rightarrow> error + OwidTable" where
  "filterByTargetTime targetTime tolerance t =
     (case timeColumn t of
        None \<Rightarrow> Inl TypeError
      | Some timeSlug \<Rightarrow>
          let matchingRows =
                concat (map (matchingRowFor t timeSlug targetTime tolerance) (availableEntityNames t))
          in Inr (filterBy (\<lambda>row. row \<in> set matchingRows) t))"

text \<open>
  \<open>getClosestRowForEachSelectedEntity\<close>.  The callback returns
  \<open>rowIndex ? rows[rowIndex] : null\<close>, and \<open>0\<close> is falsy like \<open>undefined\<close>; the final
  \<open>filter\<close> drops \<open>null\<close> and \<open>undefined\<close>.
\<close>

definition getClosestRowForEachSelectedEntity :: "real \<Rightarrow> real \<Rightarrow> OwidTable \<Rightarrow> OwidRow list" where
  "getClosestRowForEachSelectedEntity targetTime tolerance t =
     (let rowMap = rowsByEntityName t
      in case timeColumn t of
           None \<Rightarrow> []
         | Some timeSlug \<Rightarrow>
             if timeSlug = [] then []
             else List.map_filter (\<lambda>ename.
                    case rowMap ename of
                      None \<Rightarrow> None
                    | Some rs \<Rightarrow>
                        (case findClosestTimeIndex (map (\<lambda>row. cells (snd row) timeSlug) rs)
                                targetTime tolerance of
                           None \<Rightarrow> None
                         | Some rowIndex \<Rightarrow>
                             if rowIndex \<noteq> 0 \<and> rowIndex < length rs
                             then Some (snd (rs ! rowIndex)) else None))
                  (selectedEntityNames t))"

subsection \<open>Derived metrics\<close>

text \<open>
  Modelled from the spec: the accumulation of \<open>sum\<close> (grapher/utils/Util is not among the
  sources): values that are absent are passed over.
\<close>

fun baseSum :: "rounding \<Rightarrow> number option \<Rightarrow> number option list \<Rightarrow> number option" where
  "baseSum fl acc [] = acc"
| "baseSum fl acc (None # xs) = baseSum fl acc xs"
| "baseSum fl acc (Some v # xs) =
     baseSum fl (Some (case acc of None \<Rightarrow> v | Some a \<Rightarrow> js_add fl a v)) xs"

text \<open>
  Modelled from the spec: \<open>sum\<close> (grapher/utils/Util is not among the sources): the sum of
  the column over the rows given; the sum is absent when none of them has a value.
\<close>

definition sum_js :: "rounding \<Rightarrow> number option list \<Rightarrow> number option" where
  "sum_js fl xs = baseSum fl None xs"

text \<open>Mapping a function that may throw over an array: the first error ends it.\<close>

fun traverse :: "('a \<Rightarrow> error + 'b) \<Rightarrow> 'a list \<Rightarrow> error + 'b list" where
  "traverse f [] = Inr []"
| "traverse f (x # xs) =
     (case f x of
        Inl e \<Rightarrow> Inl e
      | Inr y \<Rightarrow> (case traverse f xs of Inl e \<Rightarrow> Inl e | Inr ys \<Rightarrow> Inr (y # ys)))"

text \<open>The callback of \<open>this.rows.map\<close> in \<open>toPercentageFromEachEntityForEachTime\<close>.\<close>

definition percentageRow ::
  "rounding \<Rightarrow> ColumnSlug \<Rightarrow> ColumnSlug \<Rightarrow> (number option \<rightharpoonup> RowRef list) \<Rightarrow> OwidRow
     \<Rightarrow> error + OwidRow" where
  "percentageRow fl columnSlug timeColumnSlug rowsForYear row =
     (case rowsForYear (cells row timeColumnSlug) of
        None \<Rightarrow> Inl TypeError
      | Some sameTime \<Rightarrow>
          let total = sum_js fl (map (\<lambda>row. cells (snd row) columnSlug) sameTime)
          in Inr (row\<lparr>cells := (cells row)(columnSlug \<mapsto>
                js_div fl (js_mul fl (Fin 100) (toNumber (cells row columnSlug))) (toNumber total))\<rparr>))"

definition toPercentageFromEachEntityForEachTime ::
  "rounding \<Rightarrow> ColumnSlug \<Rightarrow> OwidTable \<Rightarrow> error + OwidTable" where
  "toPercentageFromEachEntityForEachTime fl columnSlug t =
     (let newSpecs = map (\<lambda>spec. if columnSlug = slug spec then spec\<lparr>type := Percentage\<rparr> else spec)
                       (specs t)
      in case timeColumn t of
           None \<Rightarrow> Inl TypeError
         | Some timeColumnSlug \<Rightarrow>
             (case traverse (percentageRow fl columnSlug timeColumnSlug (rowsByTime timeColumnSlug t))
                     (rows t) of
                Inl e \<Rightarrow> Inl e
              | Inr newRows \<Rightarrow> Inr (newOwidTable newRows newSpecs t)))"

text \<open>
  Modelled from the spec: \<open>get(slug)\<close> of \<open>AbstractCoreTable\<close> (CoreTable.ts is not among the
  sources): the column of the table bound to the spec with that slug, if there is one.
\<close>

definition getColumn :: "ColumnSlug \<Rightarrow> OwidTable \<Rightarrow> OwidColumnSpec option" where
  "getColumn columnSlug t = find (\<lambda>spec. slug spec = columnSlug) (rev (specs t))"

text \<open>
  Modelled from the spec: one step of building \<open>valueByEntityNameAndTime\<close> of
  \<open>AbstractCoreColumn\<close> (CoreTable.ts is not among the sources): for a row where this
  column's value is present, the value is recorded keyed first by entity name, then by
  resolved time; of two rows with the same entity and time the last one wins.
\<close>

definition recordValue ::
  "ColumnSlug \<Rightarrow> (EntityName \<rightharpoonup> (number \<rightharpoonup> number)) \<Rightarrow> OwidRow
     \<Rightarrow> (EntityName \<rightharpoonup> (number \<rightharpoonup> number))" where
  "recordValue columnSlug m row =
     (case cells row columnSlug of
        None \<Rightarrow> m
      | Some v \<Rightarrow>
          m(entityName row \<mapsto>
              (case m (entityName row) of None \<Rightarrow> Map.empty | Some byTime \<Rightarrow> byTime)
                (rowTime row \<mapsto> v)))"

text \<open>
  Modelled from the spec: the index \<open>valueByEntityNameAndTime\<close> itself (CoreTable.ts is not
  among the sources): the values of the column recorded row by row, in table order.
\<close>

definition valueByEntityNameAndTime ::
  "ColumnSlug \<Rightarrow> OwidTable \<Rightarrow> EntityName \<rightharpoonup> (number \<rightharpoonup> number)" where
  "valueByEntityNameAndTime columnSlug t = foldl (recordValue columnSlug) Map.empty (rows t)"

text \<open>\<open>index.get(entityName)?.get(time)\<close>\<close>

definition getValue :: "(EntityName \<rightharpoonup> (number \<rightharpoonup> number)) \<Rightarrow> EntityName \<Rightarrow> number \<Rightarrow> number option" where
  "getValue index ename time = (case index ename of None \<Rightarrow> None | Some byTime \<Rightarrow> byTime time)"

text \<open>
  The body of \<open>columnSlugs.forEach\<close> in \<open>toTotalGrowthForEachColumnComparedToStartTime\<close>:
  \<open>this.get(slug)!.valueByEntityNameAndTime\<close> throws when the table has no such column.
\<close>

definition growthCell ::
  "rounding \<Rightarrow> real \<Rightarrow> OwidTable \<Rightarrow> OwidRow \<Rightarrow> OwidRow \<Rightarrow> ColumnSlug \<Rightarrow> error + OwidRow" where
  "growthCell fl startTime t row newRow columnSlug =
     (case getColumn columnSlug t of
        None \<Rightarrow> Inl TypeError
      | Some column \<Rightarrow>
          let comparisonValue =
                getValue (valueByEntityNameAndTime columnSlug t) (entityName row) (Fin startTime)
          in Inr (newRow\<lparr>cells := (cells newRow)(columnSlug :=
                (case comparisonValue of
                   Some c \<Rightarrow>
                     Some (js_add fl (Fin (- 100))
                       (js_div fl (js_mul fl (Fin 100) (toNumber (cells row columnSlug))) c))
                 | None \<Rightarrow> None))\<rparr>))"

fun growthRow ::
  "rounding \<Rightarrow> real \<Rightarrow> OwidTable \<Rightarrow> OwidRow \<Rightarrow> OwidRow \<Rightarrow> ColumnSlug list \<Rightarrow> error + OwidRow" where
  "growthRow fl startTime t row newRow [] = Inr newRow"
| "growthRow fl startTime t row newRow (s # columnSlugs) =
     (case growthCell fl startTime t row newRow s of
        Inl e \<Rightarrow> Inl e
      | Inr newRow' \<Rightarrow> growthRow fl startTime t row newRow' columnSlugs)"

definition toTotalGrowthForEachColumnComparedToStartTime ::
  "rounding \<Rightarrow> real \<Rightarrow> ColumnSlug list \<Rightarrow> OwidTable \<Rightarrow> error + OwidTable" where
  "toTotalGrowthForEachColumnComparedToStartTime fl startTime columnSlugs t =
     (let newSpecs = map (\<lambda>spec. if slug spec \<in> set columnSlugs
                                  then spec\<lparr>type := PercentChangeOverTime\<rparr> else spec) (specs t)
      in case traverse (\<lambda>row. growthRow fl startTime t row row columnSlugs) (rows t) of
           Inl e \<Rightarrow> Inl e
         | Inr newRows \<Rightarrow> Inr (newOwidTable newRows newSpecs t))"

subsection \<open>Selection by code and by id\<close>

definition entityIdToNameMap :: "OwidTable \<Rightarrow> EntityId \<rightharpoonup> EntityName" where
  "entityIdToNameMap t = foldl (\<lambda>m row. m(entityId row \<mapsto> entityName row)) Map.empty (rows t)"

text \<open>\<open>if (row.entityCode)\<close>: a code that is absent or the empty string is falsy.\<close>

definition entityCodeToNameMap :: "OwidTable \<Rightarrow> EntityCode \<rightharpoonup> EntityName" where
  "entityCodeToNameMap t =
     foldl (\<lambda>m row.
        case entityCode row of
          Some code \<Rightarrow> if code \<noteq> [] then m(code \<mapsto> entityName row)
                       else m(entityName row \<mapsto> entityName row)
        | None \<Rightarrow> m(entityName row \<mapsto> entityName row))
       Map.empty (rows t)"

text \<open>
  What a selection method hands back to its caller: the table itself (\<open>return this\<close>, for
  chaining) or an array of codes or ids.
\<close>

datatype returned = TableValue OwidTable | Codes "EntityCode list" | Ids "EntityId list"

text \<open>
  \<open>setSelectedEntitiesByCode\<close> and \<open>setSelectedEntitiesByEntityId\<close>: the value returned,
  paired with the table after the selection has been mutated.  The by-id variant returns
  what \<open>setSelectedEntities\<close> returns, which is what \<open>selectRows\<close> returns: the table.
\<close>

definition setSelectedEntitiesByCode :: "EntityCode list \<Rightarrow> OwidTable \<Rightarrow> returned \<times> OwidTable" where
  "setSelectedEntitiesByCode entityCodes t =
     (let m = entityCodeToNameMap t;
          codesInData = filter (\<lambda>code. m code \<noteq> None) entityCodes;
          t' = setSelectedEntities (map m codesInData) t
      in (Codes codesInData, t'))"

definition setSelectedEntitiesByEntityId :: "EntityId list \<Rightarrow> OwidTable \<Rightarrow> returned \<times> OwidTable" where
  "setSelectedEntitiesByEntityId entityIds t =
     (let m = entityIdToNameMap t;
          t' = setSelectedEntities (map m entityIds) t
      in (TableValue t', t'))"

subsection \<open>Legacy ingestion\<close>

record LegacyEntityMeta =
  metaName :: EntityName
  metaCode :: "EntityCode option"

text \<open>
  \<open>LegacyVariableConfig\<close>: \<open>id\<close>, \<open>name\<close> and \<open>display\<close> of the variable and its three parallel
  arrays \<open>entities\<close>, \<open>values\<close> and \<open>years\<close>, each of which may be missing.
\<close>

record LegacyVariableConfig =
  variableId :: int
  variableName :: string
  variableDisplay :: "LegacyVariableDisplayConfig option"
  variableEntities :: "EntityId list option"
  variableValues :: "number list option"
  variableYears :: "number list option"

text \<open>\<open>json.variables\<close> is listed in the order in which \<open>for (const key in ...)\<close> visits it.\<close>

record LegacyVariablesAndEntityKey =
  variables :: "(string \<times> LegacyVariableConfig) list"
  entityKey :: "EntityId \<rightharpoonup> LegacyEntityMeta"

record ChartDimension =
  dimensionVariableId :: int
  dimensionDisplay :: "LegacyVariableDisplayConfig option"

text \<open>\<open>Map<ColumnSlug, CoreColumnSpec>\<close>: \<open>set\<close> replaces in place or appends.\<close>

type_synonym MapOfColumnSpecs = "(ColumnSlug \<times> OwidColumnSpec) list"

fun mapSet :: "'k \<Rightarrow> 'v \<Rightarrow> ('k \<times> 'v) list \<Rightarrow> ('k \<times> 'v) list" where
  "mapSet k v [] = [(k, v)]"
| "mapSet k v (p # ps) = (if fst p = k then (k, v) # ps else p # mapSet k v ps)"

text \<open>\<open>Number.prototype.toString\<close> on an integer.\<close>

fun natToString :: "nat \<Rightarrow> string" where
  "natToString n =
     (if n < 10 then [''0123456789'' ! n]
      else natToString (n div 10) @ [''0123456789'' ! (n mod 10)])"

definition intToString :: "int \<Rightarrow> string" where
  "intToString i = (if i < 0 then CHR ''-'' # natToString (nat (- i)) else natToString (nat i))"

text \<open>\<open>String.prototype.split\<close> on a one-character separator.\<close>

fun split :: "char \<Rightarrow> string \<Rightarrow> string list" where
  "split sep [] = [[]]"
| "split sep (c # cs) =
     (if c = sep then [] # split sep cs
      else (case split sep cs of w # ws \<Rightarrow> (c # w) # ws | [] \<Rightarrow> [[c]]))"

text \<open>\<open>String.prototype.trim\<close>, on the ASCII white space characters.\<close>

definition isSpace :: "char \<Rightarrow> bool" where
  "isSpace c = (c \<in> set [CHR '' '', CHR 0x09, CHR 0x0A, CHR 0x0B, CHR 0x0C, CHR 0x0D])"

definition trim :: "string \<Rightarrow> string" where
  "trim s = rev (dropWhile isSpace (rev (dropWhile isSpace s)))"

text \<open>\<open>words.join(delimiter)\<close>\<close>

fun join :: "char \<Rightarrow> string list \<Rightarrow> string" where
  "join sep [] = []"
| "join sep [w] = w"
| "join sep (w # ws) = w @ sep # join sep ws"

definition annotationsToMap :: "string \<Rightarrow> string \<rightharpoonup> string" where
  "annotationsToMap annotationText =
     foldl (\<lambda>entityAnnotationsMap line.
        case split CHR '':'' line of
          key # wordList \<Rightarrow> entityAnnotationsMap(trim key \<mapsto> trim (join CHR '':'' wordList))
        | [] \<Rightarrow> entityAnnotationsMap)
       Map.empty (split CHR 0x0A annotationText)"

definition makeAnnotationColumnSlug :: "ColumnSlug \<Rightarrow> ColumnSlug" where
  "makeAnnotationColumnSlug columnSlug = columnSlug @ ''-annotations''"

definition columnSpecFromLegacyVariable :: "LegacyVariableConfig \<Rightarrow> OwidColumnSpec" where
  "columnSpecFromLegacyVariable variable =
     \<lparr>slug = intToString (variableId variable),
      name = Some (if variableId variable = 123 then ''Continent'' else variableName variable),
      type = Numeric,
      display = variableDisplay variable,
      owidVariableId = Some (variableId variable),
      isDailyMeasurement =
        (case variableDisplay variable of None \<Rightarrow> None | Some d \<Rightarrow> yearIsDay d)\<rparr>"

definition requiredColumnSpecs :: "OwidColumnSpec list" where
  "requiredColumnSpecs =
     [\<lparr>slug = ''entityName'', name = Some ''Entity'', type = Categorical, display = None,
        owidVariableId = None, isDailyMeasurement = None\<rparr>,
      \<lparr>slug = ''entityId'', name = None, type = Categorical, display = None,
        owidVariableId = None, isDailyMeasurement = None\<rparr>,
      \<lparr>slug = ''entityCode'', name = Some ''Code'', type = Categorical, display = None,
        owidVariableId = None, isDailyMeasurement = None\<rparr>]"

text \<open>
  \<open>convertLegacyYears\<close>.  \<open>diffDateISOStringInDays\<close> (grapher/utils/Util) and \<open>EPOCH_DATE\<close>
  (GrapherConstants) are not among the sources: the day difference is a parameter.
\<close>

definition convertLegacyYears ::
  "rounding \<Rightarrow> (string \<Rightarrow> string \<Rightarrow> int) \<Rightarrow> string \<Rightarrow> number list \<Rightarrow> string \<Rightarrow> number list" where
  "convertLegacyYears fl diffDateISOStringInDays EPOCH_DATE yearList zero =
     (let diff = diffDateISOStringInDays zero EPOCH_DATE
      in map (\<lambda>y. js_add fl y (Fin (of_int diff))) yearList)"

text \<open>\<open>variable.entities?.map((id) => entityMetaById[id].name) || []\<close>: reading \<open>.name\<close> of
  an id that the entity key lacks throws a \<open>TypeError\<close>.\<close>

definition entityMetaOf ::
  "(EntityId \<rightharpoonup> LegacyEntityMeta) \<Rightarrow> (LegacyEntityMeta \<Rightarrow> 'a) \<Rightarrow> EntityId list option \<Rightarrow> error + 'a list" where
  "entityMetaOf entityMetaById field ids =
     (case ids of
        None \<Rightarrow> Inr []
      | Some idList \<Rightarrow>
          traverse (\<lambda>i. case entityMetaById i of None \<Rightarrow> Inl TypeError | Some m \<Rightarrow> Inr (field m))
            idList)"

text \<open>The truthiness of \<open>columnSpec.isDailyMeasurement\<close> and of the annotations text.\<close>

definition truthyFlag :: "bool option \<Rightarrow> bool" where
  "truthyFlag b = (b = Some True)"

definition truthyString :: "string option \<Rightarrow> bool" where
  "truthyString s = (case s of None \<Rightarrow> False | Some str \<Rightarrow> str \<noteq> [])"

text \<open>The column specs that one pass of the loop over the variables sets.\<close>

definition variableSpecs :: "LegacyVariableConfig \<Rightarrow> MapOfColumnSpecs \<Rightarrow> MapOfColumnSpecs" where
  "variableSpecs variable columnSpecs =
     (let columnSpec = columnSpecFromLegacyVariable variable;
          columnSlug = slug columnSpec;
          withTime =
            (if truthyFlag (isDailyMeasurement columnSpec)
             then mapSet ''day'' \<lparr>slug = ''day'', name = Some ''Date'', type = Date, display = None,
                    owidVariableId = None, isDailyMeasurement = None\<rparr> columnSpecs
             else mapSet ''year'' \<lparr>slug = ''year'', name = Some ''Year'', type = Year, display = None,
                    owidVariableId = None, isDailyMeasurement = None\<rparr> columnSpecs);
          withColumn = mapSet columnSlug columnSpec withTime
      in case variableDisplay variable of
           None \<Rightarrow> withColumn
         | Some d \<Rightarrow>
             if truthyString (entityAnnotationsMap d)
             then mapSet (makeAnnotationColumnSlug columnSlug)
                    \<lparr>slug = makeAnnotationColumnSlug columnSlug,
                     name = Some ((case name columnSpec of None \<Rightarrow> ''undefined'' | Some n \<Rightarrow> n)
                                   @ '' Annotations''),
                     type = String, display = None, owidVariableId = None,
                     isDailyMeasurement = None\<rparr> withColumn
             else withColumn)"

text \<open>
  The rows that one pass of the loop builds, \<open>values.map((value, index) => ...)\<close>.  The
  wire format gives the three arrays the same length; a position that one of them lacks
  would make a row outside \<open>OwidRow\<close> and yields no row here.
\<close>

definition variableRows ::
  "rounding \<Rightarrow> (string \<Rightarrow> string \<Rightarrow> int) \<Rightarrow> string \<Rightarrow> (EntityId \<rightharpoonup> LegacyEntityMeta) \<Rightarrow> LegacyVariableConfig
     \<Rightarrow> error + OwidRow list" where
  "variableRows fl diffDateISOStringInDays EPOCH_DATE entityMetaById variable =
     (case entityMetaOf entityMetaById metaName (variableEntities variable) of
        Inl e \<Rightarrow> Inl e
      | Inr entityNames \<Rightarrow>
     (case entityMetaOf entityMetaById metaCode (variableEntities variable) of
        Inl e \<Rightarrow> Inl e
      | Inr entityCodes \<Rightarrow>
          let columnSpec = columnSpecFromLegacyVariable variable;
              columnSlug = slug columnSpec;
              annotationMap =
                (case variableDisplay variable of
                   None \<Rightarrow> None
                 | Some d \<Rightarrow> if truthyString (entityAnnotationsMap d)
                             then map_option annotationsToMap (entityAnnotationsMap d) else None);
              timeColumnName = (if truthyFlag (isDailyMeasurement columnSpec) then ''day'' else ''year'');
              yearsRaw = (case variableYears variable of None \<Rightarrow> [] | Some ys \<Rightarrow> ys);
              yearList =
                (case variableDisplay variable of
                   None \<Rightarrow> yearsRaw
                 | Some d \<Rightarrow>
                     (case zeroDay d of
                        None \<Rightarrow> yearsRaw
                      | Some zero \<Rightarrow>
                          if truthyFlag (yearIsDay d) \<and> zero \<noteq> EPOCH_DATE
                          then convertLegacyYears fl diffDateISOStringInDays EPOCH_DATE yearsRaw zero
                          else yearsRaw));
              valueList = (case variableValues variable of None \<Rightarrow> [] | Some vs \<Rightarrow> vs);
              entityList = (case variableEntities variable of None \<Rightarrow> [] | Some ids \<Rightarrow> ids)
          in Inr (map (\<lambda>(v, ename, time, eid, code).
                    \<lparr>entityName = ename, entityCode = code, entityId = eid,
                     cells = [timeColumnName \<mapsto> time, ''time'' \<mapsto> time, columnSlug \<mapsto> v],
                     annotations =
                       (case annotationMap of
                          None \<Rightarrow> Map.empty
                        | Some am \<Rightarrow> (\<lambda>s. if s = makeAnnotationColumnSlug columnSlug
                                           then am ename else None))\<rparr>)
                 (zip valueList (zip entityNames (zip yearList (zip entityList entityCodes)))))))"

text \<open>The loop \<open>for (const key in json.variables)\<close>, with the rows and specs built so far.\<close>

fun variablesLoop ::
  "rounding \<Rightarrow> (string \<Rightarrow> string \<Rightarrow> int) \<Rightarrow> string \<Rightarrow> (EntityId \<rightharpoonup> LegacyEntityMeta)
     \<Rightarrow> (string \<times> LegacyVariableConfig) list \<Rightarrow> OwidRow list \<times> MapOfColumnSpecs
     \<Rightarrow> error + OwidRow list \<times> MapOfColumnSpecs" where
  "variablesLoop fl diffDays epoch entityMetaById [] acc = Inr acc"
| "variablesLoop fl diffDays epoch entityMetaById ((key, variable) # rest) (rowList, columnSpecs) =
     (case variableRows fl diffDays epoch entityMetaById variable of
        Inl e \<Rightarrow> Inl e
      | Inr newRows \<Rightarrow>
          variablesLoop fl diffDays epoch entityMetaById rest
            (rowList @ newRows, variableSpecs variable columnSpecs))"

text \<open>The key of \<open>groupBy\<close>: the time part (\<open>year:...\<close> or \<open>day:...\<close>) and the entity name.\<close>

definition groupKey :: "OwidRow \<Rightarrow> (string \<times> number option) \<times> EntityName" where
  "groupKey row =
     ((case cells row ''year'' of
         Some y \<Rightarrow> (''year'', Some y)
       | None \<Rightarrow> (''day'', cells row ''day'')),
      entityName row)"

text \<open>
  Modelled from the spec: \<open>groupBy\<close> (grapher/utils/Util is not among the sources): the rows
  are grouped by the composite key, the groups in the order in which their keys first
  occur and the rows of a group in their original order.
\<close>

definition groupBy :: "'a list \<Rightarrow> ('a \<Rightarrow> 'k) \<Rightarrow> ('k \<times> 'a list) list" where
  "groupBy xs key = map (\<lambda>k. (k, filter (\<lambda>x. key x = k) xs)) (uniq (map key xs))"

text \<open>\<open>Object.assign({}, ...group)\<close>: a shallow union of the fields in which a later row wins.\<close>

definition assign :: "OwidRow \<Rightarrow> OwidRow \<Rightarrow> OwidRow" where
  "assign target source =
     \<lparr>entityName = entityName source, entityCode = entityCode source, entityId = entityId source,
      cells = cells target ++ cells source,
      annotations = annotations target ++ annotations source\<rparr>"

definition joinGroup :: "OwidRow list \<Rightarrow> OwidRow option" where
  "joinGroup rowGroup = (case rowGroup of [] \<Rightarrow> None | r # rs \<Rightarrow> Some (foldl assign r rs))"

text \<open>
  Modelled from the spec: the order of \<open>sortBy\<close> (grapher/utils/Util is not among the
  sources) on one sort key: ascending, with a value that is absent after every number.
\<close>

fun keyRank :: "number option \<Rightarrow> nat \<times> real" where
  "keyRank (Some NegInf) = (0, 0)"
| "keyRank (Some (Fin x)) = (1, x)"
| "keyRank (Some PosInf) = (2, 0)"
| "keyRank None = (3, 0)"
| "keyRank (Some NaN) = (4, 0)"

text \<open>The strict order of two sort keys, and of two rows on the listed slugs in turn.\<close>

definition keyLess :: "number option \<Rightarrow> number option \<Rightarrow> bool" where
  "keyLess a b =
     (fst (keyRank a) < fst (keyRank b) \<or>
      (fst (keyRank a) = fst (keyRank b) \<and> snd (keyRank a) < snd (keyRank b)))"

fun rowLess :: "ColumnSlug list \<Rightarrow> OwidRow \<Rightarrow> OwidRow \<Rightarrow> bool" where
  "rowLess [] a b = False"
| "rowLess (s # slugs) a b =
     (keyLess (cells a s) (cells b s) \<or>
      (\<not> keyLess (cells b s) (cells a s) \<and> rowLess slugs a b))"

text \<open>
  Inserting a row into a sorted list, before the first row that does not precede it: rows
  that compare equal keep their original order.
\<close>

fun insertRow :: "(OwidRow \<Rightarrow> OwidRow \<Rightarrow> bool) \<Rightarrow> OwidRow \<Rightarrow> OwidRow list \<Rightarrow> OwidRow list" where
  "insertRow before x [] = [x]"
| "insertRow before x (y # ys) = (if before y x then y # insertRow before x ys else x # y # ys)"

text \<open>
  Modelled from the spec: \<open>sortBy(rows, slugs)\<close> (grapher/utils/Util is not among the
  sources): a stable sort of the rows by the listed slugs, ascending.
\<close>

definition sortBy :: "OwidRow list \<Rightarrow> ColumnSlug list \<Rightarrow> OwidRow list" where
  "sortBy rowList slugs = foldr (insertRow (rowLess slugs)) rowList []"

definition legacyVariablesToTabular ::
  "rounding \<Rightarrow> (string \<Rightarrow> string \<Rightarrow> int) \<Rightarrow> string \<Rightarrow> LegacyVariablesAndEntityKey
     \<Rightarrow> error + OwidRow list \<times> MapOfColumnSpecs" where
  "legacyVariablesToTabular fl diffDateISOStringInDays EPOCH_DATE json =
     (let entityMetaById = entityKey json;
          columnSpecs = foldl (\<lambda>m spec. mapSet (slug spec) spec m) [] requiredColumnSpecs
      in case variablesLoop fl diffDateISOStringInDays EPOCH_DATE entityMetaById (variables json)
                ([], columnSpecs) of
           Inl e \<Rightarrow> Inl e
         | Inr (rowList, columnSpecs') \<Rightarrow>
             let groupMap = groupBy rowList groupKey;
                 joinedRows = List.map_filter (\<lambda>(groupKey, rowGroup). joinGroup rowGroup) groupMap
             in Inr (sortBy joinedRows [''year'', ''day''], columnSpecs'))"

text \<open>\<open>convertValues\<close> of \<open>fromLegacy\<close>: every value of the column that is present is scaled.\<close>

definition convertValues :: "rounding \<Rightarrow> ColumnSlug \<Rightarrow> number \<Rightarrow> OwidRow list \<Rightarrow> OwidRow list" where
  "convertValues fl columnSlug unitConversionFactor rowList =
     map (\<lambda>row. case cells row columnSlug of
                  Some v \<Rightarrow> row\<lparr>cells := (cells row)(columnSlug \<mapsto> js_mul fl v unitConversionFactor)\<rparr>
                | None \<Rightarrow> row) rowList"

definition conversionFactorOf :: "LegacyVariableDisplayConfig option \<Rightarrow> number option" where
  "conversionFactorOf d = (case d of None \<Rightarrow> None | Some c \<Rightarrow> conversionFactor c)"

text \<open>
  Modelled from the spec: \<open>trimObject\<close> (grapher/utils/Util is not among the sources), as
  used in \<open>{...trimObject(colSpec.display), ...trimObject(dim.display)}\<close>: the display
  metadata declared on the column and in the external dimension are united field by field,
  a field the dimension declares winning.
\<close>

definition mergedField ::
  "(LegacyVariableDisplayConfig \<Rightarrow> 'a option) \<Rightarrow> LegacyVariableDisplayConfig option
     \<Rightarrow> LegacyVariableDisplayConfig option \<Rightarrow> 'a option" where
  "mergedField f a b =
     nullish (case b of None \<Rightarrow> None | Some d \<Rightarrow> f d) (case a of None \<Rightarrow> None | Some d \<Rightarrow> f d)"

definition mergeDisplay ::
  "LegacyVariableDisplayConfig option \<Rightarrow> LegacyVariableDisplayConfig option \<Rightarrow> LegacyVariableDisplayConfig" where
  "mergeDisplay a b =
     \<lparr>yearIsDay = mergedField yearIsDay a b, zeroDay = mergedField zeroDay a b,
      entityAnnotationsMap = mergedField entityAnnotationsMap a b,
      conversionFactor = mergedField conversionFactor a b\<rparr>"

text \<open>
  The last loop of \<open>fromLegacy\<close>: \<open>columnSpecs.get(dim.variableId.toString())!\<close> is undefined
  for a dimension whose variable is not among the columns, and setting \<open>display\<close> on it
  throws.
\<close>

fun dimensionsLoop :: "ChartDimension list \<Rightarrow> MapOfColumnSpecs \<Rightarrow> error + MapOfColumnSpecs" where
  "dimensionsLoop [] columnSpecs = Inr columnSpecs"
| "dimensionsLoop (dimension # rest) columnSpecs =
     (case map_of columnSpecs (intToString (dimensionVariableId dimension)) of
        None \<Rightarrow> Inl TypeError
      | Some colSpec \<Rightarrow>
          dimensionsLoop rest
            (mapSet (intToString (dimensionVariableId dimension))
               (colSpec\<lparr>display := Some (mergeDisplay (display colSpec) (dimensionDisplay dimension))\<rparr>)
               columnSpecs))"

text \<open>
  \<open>fromLegacy\<close>.  How a table without a parent finds its time column among its specs is
  part of \<open>AbstractCoreTable\<close>, which is not among the sources: it is a parameter.
\<close>

definition fromLegacy ::
  "rounding \<Rightarrow> (string \<Rightarrow> string \<Rightarrow> int) \<Rightarrow> string \<Rightarrow> (OwidColumnSpec list \<Rightarrow> ColumnSlug option)
     \<Rightarrow> LegacyVariablesAndEntityKey \<Rightarrow> ChartDimension list \<Rightarrow> error + OwidTable" where
  "fromLegacy fl diffDateISOStringInDays EPOCH_DATE timeColumnOf json dimensions =
     (case legacyVariablesToTabular fl diffDateISOStringInDays EPOCH_DATE json of
        Inl e \<Rightarrow> Inl e
      | Inr (rowList, columnSpecs) \<Rightarrow>
          let converted =
                foldl (\<lambda>rs col. case conversionFactorOf (display col) of
                                   None \<Rightarrow> rs
                                 | Some factor \<Rightarrow> convertValues fl (slug col) factor rs)
                  rowList (map snd columnSpecs);
              converted' =
                foldl (\<lambda>rs dimension. case conversionFactorOf (dimensionDisplay dimension) of
                                   None \<Rightarrow> rs
                                 | Some factor \<Rightarrow>
                                     convertValues fl (intToString (dimensionVariableId dimension)) factor rs)
                  converted dimensions
          in case dimensionsLoop dimensions columnSpecs of
               Inl e \<Rightarrow> Inl e
             | Inr columnSpecs' \<Rightarrow>
                 Inr \<lparr>rows = converted', specs = map snd columnSpecs', selectedRows = [],
                      timeColumn = timeColumnOf (map snd columnSpecs')\<rparr>)"

subsection \<open>Predicates used in the statements\<close>

text \<open>
  The selection is made of whole entities: a row whose entity is selected is itself
  selected.  Every selection method of \<open>OwidTable\<close> selects or deselects all rows of an
  entity name, so every selection they build has this form.
\<close>

definition selectionByEntity :: "OwidTable \<Rightarrow> bool" where
  "selectionByEntity t =
     (\<forall>ref\<in>set (rowRefs t). isEntitySelected t (entityName (snd ref)) \<longrightarrow> isSelected t ref)"

text \<open>
  The entity of the row has no entry in the population map, or its entry is zero.
\<close>

definition unknownPopulation :: "(EntityName \<rightharpoonup> number) \<Rightarrow> OwidRow \<Rightarrow> bool" where
  "unknownPopulation populationMap row =
     (populationMap (entityName row) = None \<or> populationMap (entityName row) = Some (Fin 0))"

text \<open>
  The sum of a column over all rows of the table that have a given value in the time
  column, added up in table order as \<open>sum\<close> does, and the share of that sum that
  \<open>toPercentageFromEachEntityForEachTime\<close> writes into a row:
  \<open>(100 * row[columnSlug]) / total\<close>.
\<close>

definition totalAtTime ::
  "rounding \<Rightarrow> ColumnSlug \<Rightarrow> ColumnSlug \<Rightarrow> OwidTable \<Rightarrow> number option \<Rightarrow> number option" where
  "totalAtTime fl columnSlug timeSlug t time =
     sum_js fl (map (\<lambda>row. cells row columnSlug) (filter (\<lambda>row. cells row timeSlug = time) (rows t)))"

definition percentageOfTotal ::
  "rounding \<Rightarrow> ColumnSlug \<Rightarrow> ColumnSlug \<Rightarrow> OwidTable \<Rightarrow> OwidRow \<Rightarrow> number" where
  "percentageOfTotal fl columnSlug timeSlug t row =
     js_div fl (js_mul fl (Fin 100) (toNumber (cells row columnSlug)))
       (toNumber (totalAtTime fl columnSlug timeSlug t (cells row timeSlug)))"

text \<open>
  The value of an entity in a column at a time: that of the last row of the entity with
  that resolved time and a value in the column.  The new value that
  \<open>toTotalGrowthForEachColumnComparedToStartTime\<close> writes is computed from it.
\<close>

definition valueAt :: "ColumnSlug \<Rightarrow> OwidTable \<Rightarrow> EntityName \<Rightarrow> real \<Rightarrow> number option" where
  "valueAt columnSlug t ename time =
     (case filter (\<lambda>row. entityName row = ename \<and> rowTime row = Fin time \<and>
                         cells row columnSlug \<noteq> None) (rows t) of
        [] \<Rightarrow> None
      | rs \<Rightarrow> cells (last rs) columnSlug)"

definition growthValue :: "rounding \<Rightarrow> real \<Rightarrow> OwidTable \<Rightarrow> OwidRow \<Rightarrow> ColumnSlug \<Rightarrow> number option" where
  "growthValue fl startTime t row columnSlug =
     (case valueAt columnSlug t (entityName row) startTime of
        Some comparisonValue \<Rightarrow>
          Some (js_add fl (Fin (- 100))
            (js_div fl (js_mul fl (Fin 100) (toNumber (cells row columnSlug))) comparisonValue))
      | None \<Rightarrow> None)"

text \<open>
  The key under which \<open>entityCodeToNameMap\<close> files a row: its code, or its name when it has
  no code.
\<close>

definition codeKey :: "OwidRow \<Rightarrow> string" where
  "codeKey row =
     (case entityCode row of
        Some code \<Rightarrow> if code \<noteq> [] then code else entityName row
      | None \<Rightarrow> entityName row)"

subsection \<open>Example tables\<close>

text \<open>
  In the examples every intermediate result is an integer of small magnitude, which a
  double holds exactly: the rounding of IEEE arithmetic leaves these results as they are.
\<close>

definition noRounding :: rounding where
  "noRounding x = Fin x"

definition exRow :: "EntityName \<Rightarrow> EntityId \<Rightarrow> (ColumnSlug \<times> number) list \<Rightarrow> OwidRow" where
  "exRow en i cs = \<lparr>entityName = en, entityCode = None, entityId = i, cells = map_of cs,
     annotations = Map.empty\<rparr>"

text \<open>Entity A observed in 2009 and 2011, entity B in 2000; nothing is selected.\<close>

definition exTable :: OwidTable where
  "exTable = \<lparr>rows = [exRow ''A'' 0 [(''year'', Fin 2009), (''GDP'', Fin 30)],
                      exRow ''A'' 0 [(''year'', Fin 2011), (''GDP'', Fin 40)],
                      exRow ''B'' 1 [(''year'', Fin 2000), (''GDP'', Fin 70)]],
     specs = [], selectedRows = [], timeColumn = Some ''year''\<rparr>"

text \<open>A single row, of the selected entity A, observed in 2000.\<close>

definition exOneRow :: OwidTable where
  "exOneRow = setSelectedEntities [Some ''A'']
     \<lparr>rows = [exRow ''A'' 0 [(''year'', Fin 2000), (''GDP'', Fin 100)]],
      specs = [], selectedRows = [], timeColumn = Some ''year''\<rparr>"

text \<open>
  Entities A and B with a population of one million and an entity C without a population
  entry; A is selected.
\<close>

definition exPopulationMap :: "EntityName \<rightharpoonup> number" where
  "exPopulationMap = [''A'' \<mapsto> Fin 1000000, ''B'' \<mapsto> Fin 1000000]"

definition exPopTable :: OwidTable where
  "exPopTable = setSelectedEntities [Some ''A'']
     \<lparr>rows = [exRow ''A'' 0 [(''year'', Fin 2000)],
              exRow ''B'' 1 [(''year'', Fin 2000)],
              exRow ''C'' 2 [(''year'', Fin 2000)]],
      specs = [], selectedRows = [], timeColumn = Some ''year''\<rparr>"

text \<open>
  Tables with a GDP column and two entities observed in the same year: GDP 30 and 70; GDP
  30 and no value; GDP 5 and -5.
\<close>

definition gdpSpec :: OwidColumnSpec where
  "gdpSpec = \<lparr>slug = ''GDP'', name = Some ''GDP'', type = Currency, display = None,
     owidVariableId = None, isDailyMeasurement = None\<rparr>"

definition exShares :: OwidTable where
  "exShares = \<lparr>rows = [exRow ''A'' 0 [(''year'', Fin 2000), (''GDP'', Fin 30)],
                       exRow ''B'' 1 [(''year'', Fin 2000), (''GDP'', Fin 70)]],
     specs = [gdpSpec], selectedRows = [], timeColumn = Some ''year''\<rparr>"

definition exMissingValue :: OwidTable where
  "exMissingValue = \<lparr>rows = [exRow ''A'' 0 [(''year'', Fin 2000), (''GDP'', Fin 30)],
                             exRow ''B'' 1 [(''year'', Fin 2000)]],
     specs = [gdpSpec], selectedRows = [], timeColumn = Some ''year''\<rparr>"

definition exCancelling :: OwidTable where
  "exCancelling = \<lparr>rows = [exRow ''A'' 0 [(''year'', Fin 2000), (''GDP'', Fin 5)],
                           exRow ''B'' 1 [(''year'', Fin 2000), (''GDP'', Fin (- 5))]],
     specs = [gdpSpec], selectedRows = [], timeColumn = Some ''year''\<rparr>"

text \<open>
  Tables with rows of a yearly and of a daily variable, built as legacy ingestion builds
  them (the time is stored under \<open>year\<close> or \<open>day\<close> and under \<open>time\<close>), with the time column
  \<open>day\<close>: entity A in the year 2010 and on the day 1990; entities A and B at the time 2010
  with GDP 30 and 70, and with GDP 5 and -5.
\<close>

definition exYearAndDay :: OwidTable where
  "exYearAndDay = \<lparr>rows = [exRow ''A'' 0 [(''year'', Fin 2010), (''time'', Fin 2010), (''GDP'', Fin 1)],
                           exRow ''A'' 0 [(''day'', Fin 1990), (''time'', Fin 1990), (''GDP'', Fin 2)]],
     specs = [gdpSpec], selectedRows = [], timeColumn = Some ''day''\<rparr>"

definition exSharesYearAndDay :: OwidTable where
  "exSharesYearAndDay =
     \<lparr>rows = [exRow ''A'' 0 [(''year'', Fin 2010), (''time'', Fin 2010), (''GDP'', Fin 30)],
              exRow ''B'' 1 [(''day'', Fin 2010), (''time'', Fin 2010), (''GDP'', Fin 70)]],
      specs = [gdpSpec], selectedRows = [], timeColumn = Some ''day''\<rparr>"

definition exCancellingYearAndDay :: OwidTable where
  "exCancellingYearAndDay =
     \<lparr>rows = [exRow ''A'' 0 [(''year'', Fin 2010), (''time'', Fin 2010), (''GDP'', Fin 5)],
              exRow ''B'' 1 [(''day'', Fin 2010), (''time'', Fin 2010), (''GDP'', Fin (- 5))]],
      specs = [gdpSpec], selectedRows = [], timeColumn = Some ''day''\<rparr>"

text \<open>A row whose \<open>time\<close> and \<open>year\<close> differ, in a table with the time column \<open>year\<close>.\<close>

definition exTimeAndYear :: OwidTable where
  "exTimeAndYear = \<lparr>rows = [exRow ''A'' 0 [(''time'', Fin 5), (''year'', Fin 2000), (''GDP'', Fin 1)]],
     specs = [gdpSpec], selectedRows = [], timeColumn = Some ''year''\<rparr>"

text \<open>Entity A with GDP 100 in 1950 and 150 in 2000; entity B observed in 2000 only.\<close>

definition exGrowth :: OwidTable where
  "exGrowth = \<lparr>rows = [exRow ''A'' 0 [(''year'', Fin 1950), (''GDP'', Fin 100)],
                       exRow ''A'' 0 [(''year'', Fin 2000), (''GDP'', Fin 150)],
                       exRow ''B'' 1 [(''year'', Fin 2000), (''GDP'', Fin 80)]],
     specs = [gdpSpec], selectedRows = [], timeColumn = Some ''year''\<rparr>"

text \<open>Entities A and B with the codes AAA and BBB and the ids 0 and 1.\<close>

definition exCodes :: OwidTable where
  "exCodes = \<lparr>rows = [\<lparr>entityName = ''A'', entityCode = Some ''AAA'', entityId = 0,
                         cells = [''year'' \<mapsto> Fin 2000], annotations = Map.empty\<rparr>,
                       \<lparr>entityName = ''B'', entityCode = Some ''BBB'', entityId = 1,
                         cells = [''year'' \<mapsto> Fin 2000], annotations = Map.empty\<rparr>],
     specs = [], selectedRows = [], timeColumn = Some ''year''\<rparr>"

text \<open>
  Wire payloads with one variable: one whose \<open>entities\<close> array names the id 5, which the
  entity key lacks, and the example of the spec (entities 0, 0, 1 in the years 2000, 2001,
  2000 with the values 1, 2, 3).
\<close>

definition exPayload :: LegacyVariablesAndEntityKey where
  "exPayload = \<lparr>variables =
       [(''1'', \<lparr>variableId = 1, variableName = ''GDP'', variableDisplay = None,
                 variableEntities = Some [5], variableValues = Some [Fin 1],
                 variableYears = Some [Fin 2000]\<rparr>)],
     entityKey = [0 \<mapsto> \<lparr>metaName = ''A'', metaCode = Some ''AA''\<rparr>]\<rparr>"

definition exPayloadOk :: LegacyVariablesAndEntityKey where
  "exPayloadOk = \<lparr>variables =
       [(''1'', \<lparr>variableId = 1, variableName = ''GDP'', variableDisplay = None,
                 variableEntities = Some [0, 0, 1], variableValues = Some [Fin 1, Fin 2, Fin 3],
                 variableYears = Some [Fin 2000, Fin 2001, Fin 2000]\<rparr>)],
     entityKey = [0 \<mapsto> \<lparr>metaName = ''A'', metaCode = Some ''AA''\<rparr>,
                  1 \<mapsto> \<lparr>metaName = ''B'', metaCode = Some ''BB''\<rparr>]\<rparr>"

section \<open>Properties\<close>

subsection \<open>Lists, row references and construction\<close>

lemma closestScan_index:
  "closestScan target tol i best cs = Some (k, x) \<Longrightarrow>
     best = Some (k, x) \<or>
     (i \<le> k \<and> k < i + length cs \<and> cs ! (k - i) = Some (Fin x) \<and> \<bar>x - target\<bar> \<le> tol)"
proof (induction cs arbitrary: i best)
  case Nil
  then show ?case by simp
next
  case (Cons c cs)
  let ?b = "(case c of
          Some (Fin x) \<Rightarrow>
            if \<bar>x - target\<bar> \<le> tol \<and>
               (case best of None \<Rightarrow> True | Some (j, y) \<Rightarrow> closerOrLater target x y)
            then Some (i, x) else best
        | _ \<Rightarrow> best)"
  from Cons.prems have "closestScan target tol (Suc i) ?b cs = Some (k, x)" by simp
  from Cons.IH[OF this] consider (a) "?b = Some (k, x)" 
    | (b) "Suc i \<le> k \<and> k < Suc i + length cs \<and> cs ! (k - Suc i) = Some (Fin x) \<and> \<bar>x - target\<bar> \<le> tol"
    by blast
  then show ?case
  proof cases
    case a
    then show ?thesis by (auto split: option.splits number.splits if_splits)
  next
    case b
    then have "(c # cs) ! (k - i) = cs ! (k - Suc i)" by (simp add: nth_Cons')
    with b show ?thesis by auto
  qed
qed

lemma closestScan_none:
  "(closestScan target tol i best cs = None) =
     (best = None \<and> (\<forall>c\<in>set cs. \<not> withinTolerance target tol c))"
  by (induction cs arbitrary: i best)
     (auto simp: withinTolerance_def split: option.splits number.splits)

lemma atLeastAsGood_trans:
  "atLeastAsGood target x y \<Longrightarrow> atLeastAsGood target y z \<Longrightarrow> atLeastAsGood target x z"
  unfolding atLeastAsGood_def by linarith

lemma atLeastAsGood_refl: "atLeastAsGood target x x"
  by (simp add: atLeastAsGood_def)

lemma closerOrLater_good: "closerOrLater target x y \<Longrightarrow> atLeastAsGood target x y"
  unfolding atLeastAsGood_def closerOrLater_def by linarith

lemma not_closerOrLater_good: "\<not> closerOrLater target x y \<Longrightarrow> atLeastAsGood target y x"
  unfolding atLeastAsGood_def closerOrLater_def by linarith

lemma closestScan_best:
  "closestScan target tol i best cs = Some (k, x) \<Longrightarrow>
     (\<forall>j y. best = Some (j, y) \<longrightarrow> atLeastAsGood target x y) \<and>
     (\<forall>y. Some (Fin y) \<in> set cs \<longrightarrow> \<bar>y - target\<bar> \<le> tol \<longrightarrow> atLeastAsGood target x y)"
proof (induction cs arbitrary: i best)
  case Nil
  then show ?case by (simp add: atLeastAsGood_refl)
next
  case (Cons c cs)
  let ?b = "(case c of
          Some (Fin x) \<Rightarrow>
            if \<bar>x - target\<bar> \<le> tol \<and>
               (case best of None \<Rightarrow> True | Some (j, y) \<Rightarrow> closerOrLater target x y)
            then Some (i, x) else best
        | _ \<Rightarrow> best)"
  from Cons.prems have run: "closestScan target tol (Suc i) ?b cs = Some (k, x)" by simp
  note ih = Cons.IH[OF run]
  have old: "atLeastAsGood target x y" if "best = Some (j, y)" for j y
  proof (cases "?b = best")
    case True
    with ih that show ?thesis by simp
  next
    case False
    then obtain z where c: "c = Some (Fin z)"
      by (cases c) (auto split: number.splits)
    with False that have z: "?b = Some (i, z)" "closerOrLater target z y"
      by (auto split: if_splits)
    from ih z(1) have "atLeastAsGood target x z" by simp
    with closerOrLater_good[OF z(2)] show ?thesis by (blast intro: atLeastAsGood_trans)
  qed
  have new: "atLeastAsGood target x y" if "c = Some (Fin y)" "\<bar>y - target\<bar> \<le> tol" for y
  proof (cases "?b = Some (i, y)")
    case True
    with ih show ?thesis by simp
  next
    case False
    with that obtain j z where jz: "best = Some (j, z)" "\<not> closerOrLater target y z"
      by (auto split: option.splits if_splits)
    from old[OF jz(1)] not_closerOrLater_good[OF jz(2)] show ?thesis
      by (blast intro: atLeastAsGood_trans)
  qed
  from ih old new show ?case by auto
qed

lemma set_uniq [simp]: "set (uniq xs) = set xs"
  by (simp add: uniq_def)

lemma distinct_uniq [simp]: "distinct (uniq xs)"
  by (simp add: uniq_def)

lemma distinct_rowRefs [simp]: "distinct (rowRefs t)"
  by (simp add: rowRefs_def distinct_enumerate)

lemma snd_rowRefs: "ref \<in> set (rowRefs t) \<Longrightarrow> snd ref \<in> set (rows t)"
  by (cases ref) (auto simp: rowRefs_def in_set_enumerate_eq)

lemma rows_rowRefs: "row \<in> set (rows t) \<Longrightarrow> \<exists>ref\<in>set (rowRefs t). snd ref = row"
proof -
  assume "row \<in> set (rows t)"
  then have "row \<in> set (map snd (rowRefs t))" by (simp add: rowRefs_def)
  then show ?thesis by auto
qed

lemma rowsOf_set:
  "set (case rowsByEntityName t en of None \<Rightarrow> [] | Some rs \<Rightarrow> rs) =
     {ref \<in> set (rowRefs t). entityName (snd ref) = en}"
  by (auto simp: rowsByEntityName_def rowsBy_def Let_def filter_empty_conv)

lemma findClosestTimeIndex_Some:
  assumes "findClosestTimeIndex cs target tol = Some k"
  shows "k < length cs \<and> (\<exists>x. cs ! k = Some (Fin x) \<and> \<bar>x - target\<bar> \<le> tol \<and>
           (\<forall>y. Some (Fin y) \<in> set cs \<longrightarrow> \<bar>y - target\<bar> \<le> tol \<longrightarrow> atLeastAsGood target x y))"
proof -
  from assms obtain x where run: "closestScan target tol 0 None cs = Some (k, x)"
    by (auto simp: findClosestTimeIndex_def)
  from closestScan_index[OF run] closestScan_best[OF run] show ?thesis by auto
qed

lemma findClosestTimeIndex_None:
  "(findClosestTimeIndex cs target tol = None) = (\<forall>c\<in>set cs. \<not> withinTolerance target tol c)"
  by (simp add: findClosestTimeIndex_def closestScan_none)

lemma matchingRowFor_length: "length (matchingRowFor t ts target tol en) \<le> 1"
  by (simp add: matchingRowFor_def Let_def split: option.splits)

lemma matchingRowFor_closest:
  assumes "ref \<in> set (matchingRowFor t ts target tol en)"
  shows "ref \<in> set (rowRefs t) \<and> entityName (snd ref) = en \<and>
         (\<exists>x. cells (snd ref) ts = Some (Fin x) \<and> \<bar>x - target\<bar> \<le> tol \<and>
            (\<forall>ref'\<in>set (rowRefs t). \<forall>y. entityName (snd ref') = en \<longrightarrow>
               cells (snd ref') ts = Some (Fin y) \<longrightarrow> \<bar>y - target\<bar> \<le> tol \<longrightarrow>
               atLeastAsGood target x y))"
proof -
  define rs where "rs = (case rowsByEntityName t en of None \<Rightarrow> [] | Some rs \<Rightarrow> rs)"
  have rs: "set rs = {ref \<in> set (rowRefs t). entityName (snd ref) = en}"
    unfolding rs_def by (rule rowsOf_set)
  from assms have "\<exists>k. findClosestTimeIndex (map (\<lambda>ref. cells (snd ref) ts) rs) target tol = Some k
      \<and> k < length rs \<and> ref = rs ! k"
    by (cases "findClosestTimeIndex (map (\<lambda>ref. cells (snd ref) ts) rs) target tol")
       (auto simp: matchingRowFor_def Let_def rs_def[symmetric] split: if_splits)
  then obtain k where k:
    "findClosestTimeIndex (map (\<lambda>ref. cells (snd ref) ts) rs) target tol = Some k"
    "k < length rs" "ref = rs ! k"
    by blast
  from findClosestTimeIndex_Some[OF k(1)] k(2,3) obtain x where x:
    "cells (snd ref) ts = Some (Fin x)" "\<bar>x - target\<bar> \<le> tol"
    "\<forall>y. Some (Fin y) \<in> set (map (\<lambda>ref. cells (snd ref) ts) rs) \<longrightarrow> \<bar>y - target\<bar> \<le> tol
       \<longrightarrow> atLeastAsGood target x y"
    by auto
  from k(2,3) have "ref \<in> set rs" by simp
  with rs have mem: "ref \<in> set (rowRefs t)" "entityName (snd ref) = en" by auto
  have "atLeastAsGood target x y"
    if "ref' \<in> set (rowRefs t)" "entityName (snd ref') = en"
       "cells (snd ref') ts = Some (Fin y)" "\<bar>y - target\<bar> \<le> tol" for ref' y
  proof -
    from that(1,2) rs have "ref' \<in> set rs" by simp
    then have "cells (snd ref') ts \<in> (\<lambda>ref. cells (snd ref) ts) ` set rs"
      by (rule imageI)
    with that(3) have "Some (Fin y) \<in> set (map (\<lambda>ref. cells (snd ref) ts) rs)"
      by simp
    with x(3) that(4) show ?thesis by simp
  qed
  then have "\<forall>ref'\<in>set (rowRefs t). \<forall>y. entityName (snd ref') = en \<longrightarrow>
               cells (snd ref') ts = Some (Fin y) \<longrightarrow> \<bar>y - target\<bar> \<le> tol \<longrightarrow>
               atLeastAsGood target x y"
    by simp
  with mem x(1,2) show ?thesis by simp
qed

lemma matchingRowFor_nonempty:
  assumes "ref \<in> set (rowRefs t)" "entityName (snd ref) = en"
    and "withinTolerance target tol (cells (snd ref) ts)"
  shows "matchingRowFor t ts target tol en \<noteq> []"
proof -
  define rs where "rs = (case rowsByEntityName t en of None \<Rightarrow> [] | Some rs \<Rightarrow> rs)"
  have rs: "set rs = {ref \<in> set (rowRefs t). entityName (snd ref) = en}"
    unfolding rs_def by (rule rowsOf_set)
  with assms have "cells (snd ref) ts \<in> set (map (\<lambda>ref. cells (snd ref) ts) rs)" by auto
  with assms(3) have "findClosestTimeIndex (map (\<lambda>ref. cells (snd ref) ts) rs) target tol \<noteq> None"
    unfolding findClosestTimeIndex_None by blast
  then obtain k where k: "findClosestTimeIndex (map (\<lambda>ref. cells (snd ref) ts) rs) target tol = Some k"
    by blast
  from findClosestTimeIndex_Some[OF k] have "k < length rs" by simp
  with k show ?thesis
    by (simp add: matchingRowFor_def Let_def rs_def[symmetric])
qed

lemma rows_newOwidTable [simp]: "rows (newOwidTable rs sp parent) = rs"
  by (simp add: newOwidTable_def copySelectionFrom_def setSelectedEntities_def selectRows_def
      clearSelection_def)

lemma rows_filterBy: "rows (filterBy p t) = map snd (filter p (rowRefs t))"
  by (simp add: filterBy_def)

lemma matchingRowFor_single:
  assumes "r1 \<in> set (matchingRowFor t ts target tol en)" "r2 \<in> set (matchingRowFor t ts target tol en)"
  shows "r1 = r2"
proof -
  have "length (matchingRowFor t ts target tol en) \<le> 1" by (rule matchingRowFor_length)
  then obtain r where "matchingRowFor t ts target tol en = [] \<or> matchingRowFor t ts target tol en = [r]"
    by (cases "matchingRowFor t ts target tol en") auto
  with assms show ?thesis by auto
qed

lemma withinTolerance_toNumber:
  "withinTolerance target tol c = (\<exists>x. toNumber c = Fin x \<and> \<bar>x - target\<bar> \<le> tol)"
  by (cases c) (auto simp: withinTolerance_def split: number.splits)

lemma atLeastAsGood_far:
  "\<bar>x - target\<bar> \<le> tol \<Longrightarrow> \<not> \<bar>y - target\<bar> \<le> tol \<Longrightarrow> atLeastAsGood target x y"
  by (simp add: atLeastAsGood_def)

subsection \<open>Selection and filtering\<close>

lemma selected_name:
  "ref \<in> set (selectedRows t) \<Longrightarrow> entityName (snd ref) \<in> set (selectedEntityNames t)"
  by (simp add: selectedEntityNames_def selectedEntityNameSet_def)

lemma selectedRows_setSelectedEntities:
  "set (selectedRows (setSelectedEntities names t)) =
     {ref \<in> set (rowRefs t). Some (entityName (snd ref)) \<in> set names}"
  by (auto simp: setSelectedEntities_def selectRows_def clearSelection_def rowRefs_def)

lemma rows_setSelectedEntities [simp]: "rows (setSelectedEntities names t) = rows t"
  by (simp add: setSelectedEntities_def selectRows_def clearSelection_def)

lemma rowRefs_setSelectedEntities [simp]: "rowRefs (setSelectedEntities names t) = rowRefs t"
  by (simp add: rowRefs_def)

lemma selectedRows_newOwidTable:
  "set (selectedRows (newOwidTable rs sp parent)) =
     {ref \<in> set (enumerate 0 rs). entityName (snd ref) \<in> set (selectedEntityNames parent)}"
  by (auto simp: newOwidTable_def copySelectionFrom_def selectedRows_setSelectedEntities rowRefs_def)

lemma rowRefs_newOwidTable: "rowRefs (newOwidTable rs sp parent) = enumerate 0 rs"
  by (simp add: rowRefs_def)

lemma map_snd_rowRefs [simp]: "map snd (rowRefs t) = rows t"
  by (simp add: rowRefs_def)

lemma snd_set_enumerate: "snd ` set (enumerate n xs) = set xs"
  by (simp only: set_map[symmetric] map_snd_enumerate)

lemma isSelected_isEntitySelected:
  "isSelected t ref \<Longrightarrow> isEntitySelected t (entityName (snd ref))"
  by (simp add: isSelected_def isEntitySelected_def selectedEntityNameSet_def)

lemma rows_filterByPopulation:
  "rows (filterByPopulation pm minPop t) =
     map snd (filter (\<lambda>ref. falsy (pm (entityName (snd ref))) \<or> isSelected t ref \<or>
        js_ge (toNumber (pm (entityName (snd ref)))) minPop) (rowRefs t))"
  by (simp add: filterByPopulation_def rows_filterBy Let_def)

lemma filter_rows_filterBy:
  assumes "\<And>ref. ref \<in> set (rowRefs t) \<Longrightarrow> Q (snd ref) \<Longrightarrow> P ref"
  shows "filter Q (rows (filterBy P t)) = filter Q (rows t)"
proof -
  have "filter Q (rows (filterBy P t)) = map snd (filter (\<lambda>ref. Q (snd ref) \<and> P ref) (rowRefs t))"
    by (simp add: rows_filterBy filter_map comp_def conj_commute)
  also have "filter (\<lambda>ref. Q (snd ref) \<and> P ref) (rowRefs t) = filter (Q \<circ> snd) (rowRefs t)"
    using assms by (auto intro: filter_cong)
  also have "map snd (filter (Q \<circ> snd) (rowRefs t)) = filter Q (map snd (rowRefs t))"
    by (rule filter_map[symmetric])
  also have "map snd (rowRefs t) = rows t"
    by (simp add: rowRefs_def)
  finally show ?thesis .
qed

lemma selectionByEntity_empty: "selectedRows t = [] \<Longrightarrow> selectionByEntity t"
  by (simp add: selectionByEntity_def isEntitySelected_def selectedEntityNameSet_def)

lemma isEntitySelected_iff:
  "isEntitySelected t en = (\<exists>ref\<in>set (selectedRows t). entityName (snd ref) = en)"
  by (auto simp: isEntitySelected_def selectedEntityNameSet_def)

lemma selectionByEntity_setSelectedEntities: "selectionByEntity (setSelectedEntities names t)"
  unfolding selectionByEntity_def isEntitySelected_iff isSelected_def
  by (auto simp: selectedRows_setSelectedEntities)

lemma selectionByEntity_newOwidTable: "selectionByEntity (newOwidTable rs sp parent)"
  by (simp add: newOwidTable_def copySelectionFrom_def selectionByEntity_setSelectedEntities)

lemma selectionByEntity_filterBy: "selectionByEntity (filterBy p t)"
  by (simp add: filterBy_def selectionByEntity_newOwidTable)

lemma selectionByEntity_selectEntity:
  assumes "selectionByEntity t"
  shows "selectionByEntity (selectEntity en t)"
proof -
  have sel: "set (selectedRows (selectEntity en t)) =
      set (selectedRows t) \<union> {ref \<in> set (rowRefs t). entityName (snd ref) = en}"
    by (simp add: selectEntity_def selectRows_def rowsOf_set)
  have refs: "rowRefs (selectEntity en t) = rowRefs t"
    by (simp add: selectEntity_def selectRows_def rowRefs_def)
  show ?thesis
    using assms unfolding selectionByEntity_def isEntitySelected_iff isSelected_def sel refs
    by auto
qed

lemma selectionByEntity_deselectEntity:
  assumes "selectionByEntity t" and own: "set (selectedRows t) \<subseteq> set (rowRefs t)"
  shows "selectionByEntity (deselectEntity en t)"
proof -
  have sel: "set (selectedRows (deselectEntity en t)) =
      {ref \<in> set (selectedRows t). entityName (snd ref) \<noteq> en}"
    using own by (auto simp: deselectEntity_def deselectRows_def rowsOf_set)
  have refs: "rowRefs (deselectEntity en t) = rowRefs t"
    by (simp add: deselectEntity_def deselectRows_def rowRefs_def)
  show ?thesis
    using assms(1) unfolding selectionByEntity_def isEntitySelected_iff isSelected_def sel refs
    by (auto; force)
qed

lemma exOneRow_eval:
  "exOneRow = \<lparr>rows = [exRow ''A'' 0 [(''year'', Fin 2000), (''GDP'', Fin 100)]],
      specs = [], selectedRows = [(0, exRow ''A'' 0 [(''year'', Fin 2000), (''GDP'', Fin 100)])],
      timeColumn = Some ''year''\<rparr>"
  by (simp add: exOneRow_def setSelectedEntities_def selectRows_def clearSelection_def rowRefs_def
      uniq_def exRow_def enumerate_eq_zip upt_rec)

lemma exPopTable_eval:
  "exPopTable = \<lparr>rows = [exRow ''A'' 0 [(''year'', Fin 2000)],
              exRow ''B'' 1 [(''year'', Fin 2000)],
              exRow ''C'' 2 [(''year'', Fin 2000)]],
      specs = [], selectedRows = [(0, exRow ''A'' 0 [(''year'', Fin 2000)])],
      timeColumn = Some ''year''\<rparr>"
  by (simp add: exPopTable_def setSelectedEntities_def selectRows_def clearSelection_def rowRefs_def
      uniq_def exRow_def enumerate_eq_zip upt_rec)

lemma exPop_names:
  "map entityName (rows (filterByPopulation exPopulationMap (Fin 100000000) exPopTable)) = [''A'', ''C'']"
  by (simp add: rows_filterByPopulation exPopTable_eval rowRefs_def enumerate_eq_zip upt_rec
      exPopulationMap_def isSelected_def exRow_def)

subsection \<open>Share of the total per time\<close>

lemma traverse_Inr: "(\<And>x. x \<in> set xs \<Longrightarrow> f x = Inr (g x)) \<Longrightarrow> traverse f xs = Inr (map g xs)"
  by (induction xs) simp_all

lemma specs_newOwidTable [simp]: "specs (newOwidTable rs sp parent) = sp"
  by (simp add: newOwidTable_def copySelectionFrom_def setSelectedEntities_def selectRows_def
      clearSelection_def)

lemma timeColumn_newOwidTable [simp]: "timeColumn (newOwidTable rs sp parent) = timeColumn parent"
  by (simp add: newOwidTable_def copySelectionFrom_def setSelectedEntities_def selectRows_def
      clearSelection_def)

lemma rowsByTime_row:
  assumes "row \<in> set (rows t)"
  shows "rowsByTime ts t (cells row ts) =
           Some (filter (\<lambda>ref. cells (snd ref) ts = cells row ts) (rowRefs t))"
proof -
  from rows_rowRefs[OF assms] obtain ref where "ref \<in> set (rowRefs t)" "snd ref = row" by blast
  then have "filter (\<lambda>ref. cells (snd ref) ts = cells row ts) (rowRefs t) \<noteq> []"
    by (auto simp: filter_empty_conv)
  then show ?thesis by (simp add: rowsByTime_def rowsBy_def Let_def)
qed

lemma filter_rows: "filter P (rows t) = map snd (filter (\<lambda>ref. P (snd ref)) (rowRefs t))"
proof -
  have "filter P (map snd (rowRefs t)) = map snd (filter (P \<circ> snd) (rowRefs t))"
    by (rule filter_map)
  then show ?thesis by (simp add: comp_def)
qed

lemma percentageRow_Inr:
  assumes row: "row \<in> set (rows t)"
  shows "percentageRow fl s ts (rowsByTime ts t) row =
           Inr (row\<lparr>cells := (cells row)(s \<mapsto> percentageOfTotal fl s ts t row)\<rparr>)"
proof -
  have "map (\<lambda>ref. cells (snd ref) s) (filter (\<lambda>ref. cells (snd ref) ts = cells row ts) (rowRefs t)) =
      map (\<lambda>r. cells r s) (map snd (filter (\<lambda>ref. cells (snd ref) ts = cells row ts) (rowRefs t)))"
    by (simp add: comp_def)
  also have "\<dots> = map (\<lambda>r. cells r s) (filter (\<lambda>r. cells r ts = cells row ts) (rows t))"
    by (simp only: filter_rows[of "\<lambda>r. cells r ts = cells row ts" t])
  finally show ?thesis
    by (simp add: percentageRow_def rowsByTime_row[OF row] Let_def percentageOfTotal_def
        totalAtTime_def)
qed

lemma toPercentage_Inr:
  assumes tc: "timeColumn t = Some ts"
  shows "toPercentageFromEachEntityForEachTime fl s t =
     Inr (newOwidTable
            (map (\<lambda>row. row\<lparr>cells := (cells row)(s \<mapsto> percentageOfTotal fl s ts t row)\<rparr>) (rows t))
            (map (\<lambda>spec. if s = slug spec then spec\<lparr>type := Percentage\<rparr> else spec) (specs t)) t)"
proof -
  have "traverse (percentageRow fl s ts (rowsByTime ts t)) (rows t) =
      Inr (map (\<lambda>row. row\<lparr>cells := (cells row)(s \<mapsto> percentageOfTotal fl s ts t row)\<rparr>) (rows t))"
    by (rule traverse_Inr) (rule percentageRow_Inr)
  then show ?thesis
    by (simp add: toPercentageFromEachEntityForEachTime_def tc Let_def)
qed

lemma sum_list_scaled:
  fixes vs :: "real list"
  shows "sum_list (map (\<lambda>v. c * v / d) vs) = c * sum_list vs / d"
  by (induction vs) (simp_all add: distrib_left add_divide_distrib)

lemma sum_list_percent:
  fixes vs :: "real list"
  assumes "sum_list vs \<noteq> 0"
  shows "sum_list (map (\<lambda>v. 100 * v / sum_list vs) vs) = 100"
  using assms by (simp add: sum_list_scaled)

lemma zip_map_filter:
  "map (\<lambda>(old, new). h new) (filter (\<lambda>(old, new). p old) (zip xs (map g xs))) =
     map (\<lambda>x. h (g x)) (filter p xs)"
  by (induction xs) simp_all

lemma js_div_zero: "js_div fl n (Fin 0) = signedInf (signOf n)"
  by (cases n) (simp_all add: signedInf_def sgn_real_def)

lemma signedInf_not_finite: "signedInf x \<noteq> Fin y"
  by (simp add: signedInf_def)

lemma js_div_absent: "js_div fl n NaN = NaN"
  by (cases n) simp_all

subsection \<open>Growth compared to a start time\<close>

lemma getValue_recordValue:
  "getValue (recordValue s m row) en k =
     (if entityName row = en \<and> rowTime row = k \<and> cells row s \<noteq> None then cells row s
      else getValue m en k)"
proof (cases "cells row s")
  case None
  then show ?thesis by (simp add: recordValue_def)
next
  case (Some v)
  then show ?thesis
    by (cases "m (entityName row)") (simp_all add: recordValue_def getValue_def)
qed

lemma getValue_foldl:
  "getValue (foldl (recordValue s) m0 rs) en k =
     (case filter (\<lambda>row. entityName row = en \<and> rowTime row = k \<and> cells row s \<noteq> None) rs of
        [] \<Rightarrow> getValue m0 en k
      | xs \<Rightarrow> cells (last xs) s)"
proof (induction rs rule: rev_induct)
  case Nil
  then show ?case by simp
next
  case (snoc r rs)
  let ?P = "\<lambda>row. entityName row = en \<and> rowTime row = k \<and> cells row s \<noteq> None"
  show ?case
  proof (cases "?P r")
    case True
    then have "filter ?P (rs @ [r]) = filter ?P rs @ [r]" by simp
    moreover obtain y ys where yy: "filter ?P rs @ [r] = y # ys"
      by (cases "filter ?P rs") auto
    moreover from yy have "last (y # ys) = r" by (simp only: yy[symmetric] last_snoc)
    ultimately have "(case filter ?P (rs @ [r]) of [] \<Rightarrow> getValue m0 en k
        | xs \<Rightarrow> cells (last xs) s) = cells r s"
      by simp
    moreover have "getValue (foldl (recordValue s) m0 (rs @ [r])) en k = cells r s"
      using True by (simp add: getValue_recordValue)
    ultimately show ?thesis by simp
  next
    case False
    then have "filter ?P (rs @ [r]) = filter ?P rs" by simp
    moreover have "getValue (foldl (recordValue s) m0 (rs @ [r])) en k =
        getValue (foldl (recordValue s) m0 rs) en k"
      using False by (auto simp: getValue_recordValue)
    ultimately show ?thesis using snoc.IH by simp
  qed
qed

lemma comparisonValue_valueAt:
  "getValue (valueByEntityNameAndTime s t) en (Fin time) = valueAt s t en time"
  unfolding valueByEntityNameAndTime_def valueAt_def getValue_foldl
  by (simp add: getValue_def split: list.splits)

lemma getColumn_Some: "s \<in> slug ` set (specs t) \<Longrightarrow> \<exists>column. getColumn s t = Some column"
  by (cases "getColumn s t") (auto simp: getColumn_def find_None_iff)

lemma growthCell_Inr:
  assumes "s \<in> slug ` set (specs t)"
  shows "growthCell fl st t row newRow s =
           Inr (newRow\<lparr>cells := (cells newRow)(s := growthValue fl st t row s)\<rparr>)"
proof -
  from getColumn_Some[OF assms] obtain column where "getColumn s t = Some column" by blast
  then show ?thesis
    by (simp add: growthCell_def comparisonValue_valueAt growthValue_def Let_def)
qed

lemma growthRow_Inr:
  assumes "set slugs \<subseteq> slug ` set (specs t)"
  shows "growthRow fl st t row newRow slugs =
           Inr (newRow\<lparr>cells := (\<lambda>c. if c \<in> set slugs then growthValue fl st t row c
                                       else cells newRow c)\<rparr>)"
  using assms
proof (induction slugs arbitrary: newRow)
  case Nil
  then show ?case by simp
next
  case (Cons s slugs)
  from Cons.prems have s: "s \<in> slug ` set (specs t)" and rest: "set slugs \<subseteq> slug ` set (specs t)"
    by simp_all
  define A where "A = (cells newRow)(s := growthValue fl st t row s)"
  define f1 where "f1 = (\<lambda>c. if c \<in> set slugs then growthValue fl st t row c
      else cells (newRow\<lparr>cells := A\<rparr>) c)"
  define f2 where "f2 = (\<lambda>c. if c \<in> set (s # slugs) then growthValue fl st t row c
      else cells newRow c)"
  have eq: "f1 = f2"
    by (auto simp: fun_eq_iff f1_def f2_def A_def)
  have "growthRow fl st t row newRow (s # slugs) = growthRow fl st t row (newRow\<lparr>cells := A\<rparr>) slugs"
    by (simp add: growthCell_Inr[OF s] A_def)
  also have "\<dots> = Inr (newRow\<lparr>cells := A\<rparr>\<lparr>cells := f1\<rparr>)"
    unfolding f1_def by (rule Cons.IH[OF rest])
  also have "newRow\<lparr>cells := A\<rparr>\<lparr>cells := f1\<rparr> = newRow\<lparr>cells := f2\<rparr>"
    by (simp add: eq)
  finally show ?case unfolding f2_def .
qed

subsection \<open>Selection by code and id, legacy ingestion\<close>

lemma foldl_map_upd:
  "foldl (\<lambda>m x. m(k x \<mapsto> v x)) m0 xs c =
     (case filter (\<lambda>x. k x = c) xs of [] \<Rightarrow> m0 c | y # ys \<Rightarrow> Some (v (last (y # ys))))"
proof (induction xs rule: rev_induct)
  case Nil
  then show ?case by simp
next
  case (snoc x xs)
  show ?case
  proof (cases "k x = c")
    case True
    then have "filter (\<lambda>x. k x = c) (xs @ [x]) = filter (\<lambda>x. k x = c) xs @ [x]" by simp
    moreover obtain y ys where yy: "filter (\<lambda>x. k x = c) xs @ [x] = y # ys"
      by (cases "filter (\<lambda>x. k x = c) xs") auto
    moreover from yy have "last (y # ys) = x" by (simp only: yy[symmetric] last_snoc)
    ultimately show ?thesis using True by simp
  next
    case False
    with snoc show ?thesis by simp
  qed
qed

lemma entityCodeToNameMap_fold:
  "entityCodeToNameMap t = foldl (\<lambda>m row. m(codeKey row \<mapsto> entityName row)) Map.empty (rows t)"
proof -
  have "(\<lambda>m row. case entityCode row of
          Some code \<Rightarrow> if code \<noteq> [] then m(code \<mapsto> entityName row)
                       else m(entityName row \<mapsto> entityName row)
        | None \<Rightarrow> m(entityName row \<mapsto> entityName row)) =
        (\<lambda>m row. m(codeKey row \<mapsto> entityName row))"
    by (auto simp: fun_eq_iff codeKey_def split: option.splits)
  then show ?thesis by (simp add: entityCodeToNameMap_def)
qed

lemma entityCodeToNameMap_resolves:
  "(entityCodeToNameMap t code \<noteq> None) = (\<exists>row\<in>set (rows t). codeKey row = code)"
proof -
  have "(entityCodeToNameMap t code = None) = (filter (\<lambda>row. codeKey row = code) (rows t) = [])"
    by (simp add: entityCodeToNameMap_fold foldl_map_upd split: list.splits)
  then show ?thesis by (simp add: filter_empty_conv)
qed

lemma entityIdToNameMap_resolves:
  "(entityIdToNameMap t i \<noteq> None) = (\<exists>row\<in>set (rows t). entityId row = i)"
proof -
  have "(entityIdToNameMap t i = None) = (filter (\<lambda>row. entityId row = i) (rows t) = [])"
    by (simp add: entityIdToNameMap_def foldl_map_upd split: list.splits)
  then show ?thesis by (simp add: filter_empty_conv)
qed

lemma traverse_Inl:
  "\<exists>x\<in>set xs. \<exists>e'. f x = Inl e' \<Longrightarrow> \<forall>y\<in>set xs. \<forall>e'. f y = Inl e' \<longrightarrow> e' = e \<Longrightarrow>
     traverse f xs = Inl e"
proof (induction xs)
  case Nil
  then show ?case by simp
next
  case (Cons a xs)
  show ?case
  proof (cases "f a")
    case (Inl e')
    with Cons.prems(2) show ?thesis by simp
  next
    case (Inr b)
    with Cons.prems(1) have "\<exists>x\<in>set xs. \<exists>e'. f x = Inl e'" by auto
    moreover from Cons.prems(2) have "\<forall>y\<in>set xs. \<forall>e'. f y = Inl e' \<longrightarrow> e' = e" by simp
    ultimately have "traverse f xs = Inl e" by (rule Cons.IH)
    with Inr show ?thesis by simp
  qed
qed

lemma traverse_error:
  assumes "traverse f xs = Inl e"
  shows "\<exists>x\<in>set xs. f x = Inl e"
  using assms by (induction xs) (auto split: sum.splits)

lemma entityMetaOf_missing:
  assumes "i \<in> set idList" "entityMetaById i = None"
  shows "entityMetaOf entityMetaById field (Some idList) = Inl TypeError"
proof -
  have "traverse (\<lambda>i. case entityMetaById i of None \<Rightarrow> Inl TypeError | Some m \<Rightarrow> Inr (field m))
      idList = Inl TypeError"
    using assms by (intro traverse_Inl) (auto split: option.splits)
  then show ?thesis by (simp add: entityMetaOf_def)
qed

lemma entityMetaOf_error: "entityMetaOf entityMetaById field ids = Inl e \<Longrightarrow> e = TypeError"
  by (cases ids) (auto simp: entityMetaOf_def dest!: traverse_error split: option.splits)

lemma variableRows_missing:
  assumes "variableEntities variable = Some idList" "i \<in> set idList" "entityMetaById i = None"
  shows "variableRows fl diffDays epoch entityMetaById variable = Inl TypeError"
  using entityMetaOf_missing[of i idList entityMetaById metaName, OF assms(2,3)]
  by (simp add: variableRows_def assms(1))

lemma variableRows_error:
  "variableRows fl diffDays epoch entityMetaById variable = Inl e \<Longrightarrow> e = TypeError"
  by (auto simp: variableRows_def Let_def split: sum.splits dest: entityMetaOf_error)

lemma variablesLoop_missing:
  assumes "(key, variable) \<in> set vars"
    and "variableRows fl diffDays epoch entityMetaById variable = Inl TypeError"
  shows "variablesLoop fl diffDays epoch entityMetaById vars acc = Inl TypeError"
  using assms(1)
proof (induction vars arbitrary: acc)
  case Nil
  then show ?case by simp
next
  case (Cons kv vars)
  obtain k v where kv: "kv = (k, v)" by (cases kv)
  obtain rowList columnSpecs where acc: "acc = (rowList, columnSpecs)" by (cases acc)
  show ?case
  proof (cases "variableRows fl diffDays epoch entityMetaById v")
    case (Inl e)
    with variableRows_error[OF Inl] show ?thesis by (simp add: kv acc)
  next
    case (Inr newRows)
    with Cons.prems assms(2) kv have "(key, variable) \<in> set vars" by auto
    from Cons.IH[OF this] Inr show ?thesis by (simp add: kv acc)
  qed
qed

lemma traverse_total:
  "\<forall>x\<in>set xs. \<exists>y. f x = Inr y \<Longrightarrow> \<exists>ys. traverse f xs = Inr ys"
  by (induction xs) auto

lemma entityMetaOf_total:
  assumes "\<forall>idList. ids = Some idList \<longrightarrow> (\<forall>i\<in>set idList. entityMetaById i \<noteq> None)"
  shows "\<exists>ys. entityMetaOf entityMetaById field ids = Inr ys"
proof (cases ids)
  case None
  then show ?thesis by (simp add: entityMetaOf_def)
next
  case (Some idList)
  with assms have "\<forall>i\<in>set idList. \<exists>y.
      (case entityMetaById i of None \<Rightarrow> Inl TypeError | Some m \<Rightarrow> Inr (field m)) = Inr y"
    by (auto split: option.splits)
  from traverse_total[OF this] Some show ?thesis by (simp add: entityMetaOf_def)
qed

lemma variableRows_total:
  assumes "\<forall>idList. variableEntities variable = Some idList \<longrightarrow>
      (\<forall>i\<in>set idList. entityMetaById i \<noteq> None)"
  shows "\<exists>rs. variableRows fl diffDays epoch entityMetaById variable = Inr rs"
proof -
  from entityMetaOf_total[OF assms] obtain names where
    "entityMetaOf entityMetaById metaName (variableEntities variable) = Inr names" by blast
  moreover from entityMetaOf_total[OF assms] obtain codes where
    "entityMetaOf entityMetaById metaCode (variableEntities variable) = Inr codes" by blast
  ultimately show ?thesis by (simp add: variableRows_def Let_def)
qed

lemma variablesLoop_total:
  assumes "\<forall>(key, variable)\<in>set vars. \<forall>idList. variableEntities variable = Some idList \<longrightarrow>
      (\<forall>i\<in>set idList. entityMetaById i \<noteq> None)"
  shows "\<exists>r. variablesLoop fl diffDays epoch entityMetaById vars acc = Inr r"
  using assms
proof (induction vars arbitrary: acc)
  case Nil
  then show ?case by simp
next
  case (Cons kv vars)
  obtain k v where kv: "kv = (k, v)" by (cases kv)
  obtain rowList columnSpecs where acc: "acc = (rowList, columnSpecs)" by (cases acc)
  from Cons.prems kv have "\<forall>idList. variableEntities v = Some idList \<longrightarrow>
      (\<forall>i\<in>set idList. entityMetaById i \<noteq> None)" by simp
  from variableRows_total[OF this] obtain rs where
    rs: "variableRows fl diffDays epoch entityMetaById v = Inr rs" by blast
  from Cons.prems have "\<forall>(key, variable)\<in>set vars. \<forall>idList. variableEntities variable = Some idList \<longrightarrow>
      (\<forall>i\<in>set idList. entityMetaById i \<noteq> None)" by simp
  from Cons.IH[OF this] rs show ?case by (simp add: kv acc)
qed

lemma legacyVariablesToTabular_total:
  assumes "\<forall>(key, variable)\<in>set (variables json). \<forall>idList. variableEntities variable = Some idList \<longrightarrow>
      (\<forall>i\<in>set idList. entityKey json i \<noteq> None)"
  shows "\<exists>r. legacyVariablesToTabular fl diffDays epoch json = Inr r"
proof -
  from variablesLoop_total[OF assms] obtain r where
    "variablesLoop fl diffDays epoch (entityKey json) (variables json)
       ([], foldl (\<lambda>m spec. mapSet (slug spec) spec m) [] requiredColumnSpecs) = Inr r"
    by blast
  then show ?thesis by (cases r) (simp add: legacyVariablesToTabular_def Let_def)
qed

lemma legacyVariablesToTabular_example:
  "map_sum id (\<lambda>(rs, sp). (map (\<lambda>row. (entityName row, cells row ''year'', cells row ''1'')) rs, map fst sp))
     (legacyVariablesToTabular noRounding (\<lambda>a b. 0) ''2020-01-21'' exPayloadOk) =
   Inr ([(''A'', Some (Fin 2000), Some (Fin 1)), (''B'', Some (Fin 2000), Some (Fin 3)),
         (''A'', Some (Fin 2001), Some (Fin 2))],
        [''entityName'', ''entityId'', ''entityCode'', ''year'', ''1''])"
  by (simp add: legacyVariablesToTabular_def exPayloadOk_def variableRows_def entityMetaOf_def Let_def
       requiredColumnSpecs_def variableSpecs_def columnSpecFromLegacyVariable_def intToString_def
       truthyFlag_def groupBy_def groupKey_def uniq_def joinGroup_def List.map_filter_def sortBy_def
       keyLess_def assign_def)

subsection \<open>Closest row per entity\<close>

text \<open>
  C1.  On a table that has a time column, \<open>filterByTargetTime(targetTime, tolerance)\<close>
  returns a table made of rows of the original one, with at most one row per entity name.
  The time of a row is here its value in the time column, \<open>row[timeSlug]\<close>, which is what
  the method reads.  The time of every returned row differs from the target by at most the
  tolerance, and no row of the same entity is closer to the target; a row of the same
  entity at the same distance has an earlier or equal time, so of two equidistant times
  the later one is chosen.  An entity is present in the result exactly when one of its
  rows lies within tolerance: an entity with no such row contributes nothing.
\<close>

theorem filterByTargetTime_closest_row_per_entity:
  assumes tc: "timeColumn t = Some ts"
  shows "\<exists>t'. filterByTargetTime target tol t = Inr t' \<and>
    set (rows t') \<subseteq> set (rows t) \<and>
    distinct (map entityName (rows t')) \<and>
    (\<forall>row\<in>set (rows t'). \<exists>x. cells row ts = Some (Fin x) \<and> \<bar>x - target\<bar> \<le> tol \<and>
       (\<forall>row'\<in>set (rows t). \<forall>y. entityName row' = entityName row \<longrightarrow> cells row' ts = Some (Fin y) \<longrightarrow>
          \<bar>x - target\<bar> \<le> \<bar>y - target\<bar> \<and> (\<bar>x - target\<bar> = \<bar>y - target\<bar> \<longrightarrow> y \<le> x))) \<and>
    (\<forall>en. (en \<in> entityName ` set (rows t')) =
       (\<exists>row\<in>set (rows t). entityName row = en \<and>
          (\<exists>x. cells row ts = Some (Fin x) \<and> \<bar>x - target\<bar> \<le> tol)))"
proof -
  define M where "M = concat (map (matchingRowFor t ts target tol) (availableEntityNames t))"
  define t' where "t' = filterBy (\<lambda>ref. ref \<in> set M) t"
  have res: "filterByTargetTime target tol t = Inr t'"
    by (simp add: filterByTargetTime_def tc M_def t'_def)
  have rows': "rows t' = map snd (filter (\<lambda>ref. ref \<in> set M) (rowRefs t))"
    by (simp add: t'_def rows_filterBy)
  have M_iff: "ref \<in> set M \<longleftrightarrow> ref \<in> set (matchingRowFor t ts target tol (entityName (snd ref)))" for ref
  proof
    assume "ref \<in> set M"
    then obtain en where "ref \<in> set (matchingRowFor t ts target tol en)"
      by (auto simp: M_def)
    with matchingRowFor_closest[OF this] show "ref \<in> set (matchingRowFor t ts target tol (entityName (snd ref)))"
      by simp
  next
    assume a: "ref \<in> set (matchingRowFor t ts target tol (entityName (snd ref)))"
    from matchingRowFor_closest[OF a] have "snd ref \<in> set (rows t)" by (simp add: snd_rowRefs)
    then have "entityName (snd ref) \<in> set (availableEntityNames t)"
      by (simp add: availableEntityNames_def)
    with a show "ref \<in> set M" by (auto simp: M_def)
  qed
  have sub: "set (rows t') \<subseteq> set (rows t)"
    using snd_rowRefs by (fastforce simp: rows')
  have inj: "inj_on (\<lambda>ref. entityName (snd ref)) (set (filter (\<lambda>ref. ref \<in> set M) (rowRefs t)))"
  proof (rule inj_onI)
    fix r1 r2
    assume r1: "r1 \<in> set (filter (\<lambda>ref. ref \<in> set M) (rowRefs t))"
      and r2: "r2 \<in> set (filter (\<lambda>ref. ref \<in> set M) (rowRefs t))"
      and eq: "entityName (snd r1) = entityName (snd r2)"
    from r1 r2 have "r1 \<in> set M" "r2 \<in> set M" by simp_all
    then have "r1 \<in> set (matchingRowFor t ts target tol (entityName (snd r1)))"
      "r2 \<in> set (matchingRowFor t ts target tol (entityName (snd r1)))"
      using M_iff eq by simp_all
    then show "r1 = r2" by (rule matchingRowFor_single)
  qed
  have dist: "distinct (map entityName (rows t'))"
  proof -
    have "map entityName (rows t') =
        map (\<lambda>ref. entityName (snd ref)) (filter (\<lambda>ref. ref \<in> set M) (rowRefs t))"
      by (simp add: rows' comp_def)
    with inj show ?thesis by (simp add: distinct_map)
  qed
  have closest: "\<exists>x. cells row ts = Some (Fin x) \<and> \<bar>x - target\<bar> \<le> tol \<and>
       (\<forall>row'\<in>set (rows t). \<forall>y. entityName row' = entityName row \<longrightarrow> cells row' ts = Some (Fin y) \<longrightarrow>
          \<bar>x - target\<bar> \<le> \<bar>y - target\<bar> \<and> (\<bar>x - target\<bar> = \<bar>y - target\<bar> \<longrightarrow> y \<le> x))"
    if "row \<in> set (rows t')" for row
  proof -
    from that obtain ref where ref: "ref \<in> set M" "ref \<in> set (rowRefs t)" "snd ref = row"
      by (auto simp: rows')
    from ref(1) have "ref \<in> set (matchingRowFor t ts target tol (entityName row))"
      using M_iff ref(3) by simp
    from matchingRowFor_closest[OF this] ref(3) obtain x where x:
      "cells row ts = Some (Fin x)" "\<bar>x - target\<bar> \<le> tol"
      "\<forall>ref'\<in>set (rowRefs t). \<forall>y. entityName (snd ref') = entityName row \<longrightarrow>
               cells (snd ref') ts = Some (Fin y) \<longrightarrow> \<bar>y - target\<bar> \<le> tol \<longrightarrow>
               atLeastAsGood target x y"
      by auto
    have "\<bar>x - target\<bar> \<le> \<bar>y - target\<bar> \<and> (\<bar>x - target\<bar> = \<bar>y - target\<bar> \<longrightarrow> y \<le> x)"
      if row': "row' \<in> set (rows t)" "entityName row' = entityName row" "cells row' ts = Some (Fin y)"
      for row' y
    proof -
      from rows_rowRefs[OF row'(1)] obtain ref' where ref': "ref' \<in> set (rowRefs t)" "snd ref' = row'"
        by blast
      have "atLeastAsGood target x y"
      proof (cases "\<bar>y - target\<bar> \<le> tol")
        case True
        with x(3) ref' row'(2,3) show ?thesis by blast
      next
        case False
        with x(2) show ?thesis by (rule atLeastAsGood_far)
      qed
      then show ?thesis unfolding atLeastAsGood_def by linarith
    qed
    with x(1,2) show ?thesis by blast
  qed
  have present: "(en \<in> entityName ` set (rows t')) =
       (\<exists>row\<in>set (rows t). entityName row = en \<and>
          (\<exists>x. cells row ts = Some (Fin x) \<and> \<bar>x - target\<bar> \<le> tol))"
    for en
  proof
    assume "en \<in> entityName ` set (rows t')"
    then obtain row where row: "row \<in> set (rows t')" "entityName row = en" by auto
    from closest[OF row(1)] sub row show "\<exists>row\<in>set (rows t). entityName row = en \<and>
        (\<exists>x. cells row ts = Some (Fin x) \<and> \<bar>x - target\<bar> \<le> tol)"
      by blast
  next
    assume "\<exists>row\<in>set (rows t). entityName row = en \<and>
        (\<exists>x. cells row ts = Some (Fin x) \<and> \<bar>x - target\<bar> \<le> tol)"
    then obtain row x where row: "row \<in> set (rows t)" "entityName row = en"
      "cells row ts = Some (Fin x)" "\<bar>x - target\<bar> \<le> tol"
      by blast
    from rows_rowRefs[OF row(1)] obtain ref where ref: "ref \<in> set (rowRefs t)" "snd ref = row"
      by blast
    from row(3,4) have "withinTolerance target tol (cells row ts)"
      by (simp add: withinTolerance_def)
    with ref row(2) have "matchingRowFor t ts target tol en \<noteq> []"
      using matchingRowFor_nonempty by blast
    then obtain m where m: "m \<in> set (matchingRowFor t ts target tol en)"
      by (cases "matchingRowFor t ts target tol en") auto
    from matchingRowFor_closest[OF m] have mm: "m \<in> set (rowRefs t)" "entityName (snd m) = en"
      by simp_all
    with m have "m \<in> set M" using M_iff by simp
    with mm(1) have "snd m \<in> set (rows t')" by (simp add: rows')
    with mm(2) show "en \<in> entityName ` set (rows t')" by blast
  qed
  from res sub dist closest present show ?thesis by blast
qed

theorem filterByTargetTime_closest_row_per_entity_witness:
  "timeColumn exTable = Some ''year'' \<and>
   (\<exists>t'. filterByTargetTime 2010 1 exTable = Inr t' \<and> distinct (map entityName (rows t')) \<and>
      map entityName (rows t') = [''A''] \<and>
      map (\<lambda>row. cells row ''year'') (rows t') = [Some (Fin 2011)])"
proof -
  have tc: "timeColumn exTable = Some ''year''"
    by (simp add: exTable_def)
  from filterByTargetTime_closest_row_per_entity[OF tc, of 2010 1]
  obtain t' where t': "filterByTargetTime 2010 1 exTable = Inr t'"
    "distinct (map entityName (rows t'))"
    by blast
  have "rows (projr (filterByTargetTime 2010 1 exTable)) =
      [exRow ''A'' 0 [(''year'', Fin 2011), (''GDP'', Fin 40)]]"
    by (simp add: filterByTargetTime_def exTable_def matchingRowFor_def findClosestTimeIndex_def
        closerOrLater_def rowsByEntityName_def rowsBy_def rowRefs_def availableEntityNames_def
        uniq_def filterBy_def exRow_def enumerate_eq_zip upt_rec Let_def)
  with t'(1) have "rows t' = [exRow ''A'' 0 [(''year'', Fin 2011), (''GDP'', Fin 40)]]"
    by simp
  then have "map entityName (rows t') = [''A''] \<and>
      map (\<lambda>row. cells row ''year'') (rows t') = [Some (Fin 2011)]"
    by (simp add: exRow_def)
  with t' tc show ?thesis by (simp add: exTable_def)
qed

text \<open>
  The time that decides is not the resolved time of the row,
  \<open>parseInt(row.time ?? row.year ?? row.day ?? row.date)\<close>.  Entity A has a row of the year
  2010 and a row of the day 1990, built as legacy ingestion builds them, and the time
  column is \<open>day\<close>.  The two resolved times are equally far from the target 2000 and within
  the tolerance 10, and the row returned is the one with the earlier resolved time, not
  the later.  A row whose \<open>time\<close> is 5 and whose \<open>year\<close> is 2000 is returned for the target
  2000 with tolerance 0 on the time column \<open>year\<close>, although its resolved time is 5.
\<close>

theorem filterByTargetTime_resolved_time_counterexample:
  "timeColumn exYearAndDay = Some ''day'' \<and>
   map entityName (rows exYearAndDay) = [''A'', ''A''] \<and>
   map rowTime (rows exYearAndDay) = [Fin 2010, Fin 1990] \<and>
   map_sum id (\<lambda>t'. map rowTime (rows t')) (filterByTargetTime 2000 10 exYearAndDay) =
     Inr [Fin 1990] \<and>
   timeColumn exTimeAndYear = Some ''year'' \<and>
   map rowTime (rows exTimeAndYear) = [Fin 5] \<and>
   map_sum id (\<lambda>t'. map rowTime (rows t')) (filterByTargetTime 2000 0 exTimeAndYear) =
     Inr [Fin 5]"
  by (simp add: filterByTargetTime_def exYearAndDay_def exTimeAndYear_def matchingRowFor_def
      findClosestTimeIndex_def closerOrLater_def rowsByEntityName_def rowsBy_def rowRefs_def
      availableEntityNames_def uniq_def filterBy_def exRow_def enumerate_eq_zip upt_rec Let_def
      rowTime_def nullish_def)

subsection \<open>Closest row for each selected entity\<close>

text \<open>
  C2.  The claim is that \<open>getClosestRowForEachSelectedEntity\<close> returns, for every selected
  entity with a row within tolerance, that entity's closest row.  The code tests the index
  found with \<open>rowIndex ? rows[rowIndex] : null\<close>, so an entity whose closest row is the
  first of its rows (index 0) is left out.  On a table with the single row of the selected
  entity A at time 2000, target time 2000 and tolerance 0, the result is empty, although
  \<open>filterByTargetTime\<close> keeps the row.
\<close>

theorem getClosestRowForEachSelectedEntity_first_row_omitted:
  "isEntitySelected exOneRow ''A'' \<and>
   map rowTime (rows exOneRow) = [Fin 2000] \<and>
   getClosestRowForEachSelectedEntity 2000 0 exOneRow = [] \<and>
   (\<exists>t'. filterByTargetTime 2000 0 exOneRow = Inr t' \<and> rows t' = rows exOneRow)"
  apply (simp add: exOneRow_eval)
  apply (simp add: isEntitySelected_def selectedEntityNameSet_def selectedEntityNames_def uniq_def
      getClosestRowForEachSelectedEntity_def List.map_filter_def rowsByEntityName_def rowsBy_def
      rowRefs_def enumerate_eq_zip upt_rec findClosestTimeIndex_def exRow_def rowTime_def nullish_def
      filterByTargetTime_def matchingRowFor_def availableEntityNames_def filterBy_def Let_def)
  done

subsection \<open>Percentage of each entity for each time\<close>

text \<open>
  C3.  On a table that has a time column, \<open>toPercentageFromEachEntityForEachTime(slug)\<close>
  replaces each row's value in the column by 100 * value / total, where the total is the
  sum of the column over all rows with the same value in the time column as the row, and
  sets the type of the column's spec to \<open>Percentage\<close>.  Take the rows with one value in the
  time column: when their values in the column are all finite numbers, the total is their
  exact sum and is not zero, and none of the products 100 * value and of the quotients is
  changed by rounding, their new values are the exact shares 100 * value / sum, and these
  sum to 100.  Values 30 and 70 at the same time give 30 and 70.
\<close>

theorem toPercentageFromEachEntityForEachTime_share_of_total:
  assumes tc: "timeColumn t = Some ts"
  shows "\<exists>t'. toPercentageFromEachEntityForEachTime fl s t = Inr t' \<and>
    rows t' = map (\<lambda>row. row\<lparr>cells := (cells row)(s \<mapsto>
        js_div fl (js_mul fl (Fin 100) (toNumber (cells row s)))
          (toNumber (totalAtTime fl s ts t (cells row ts))))\<rparr>) (rows t) \<and>
    specs t' = map (\<lambda>spec. if slug spec = s then spec\<lparr>type := Percentage\<rparr> else spec) (specs t) \<and>
    (\<forall>time vs.
       map (\<lambda>row. cells row s) (filter (\<lambda>row. cells row ts = time) (rows t)) =
         map (\<lambda>v. Some (Fin v)) vs \<longrightarrow>
       totalAtTime fl s ts t time = Some (Fin (sum_list vs)) \<longrightarrow>
       sum_list vs \<noteq> 0 \<longrightarrow>
       (\<forall>v\<in>set vs. fl (100 * v) = Fin (100 * v) \<and>
                    fl (100 * v / sum_list vs) = Fin (100 * v / sum_list vs)) \<longrightarrow>
       map (\<lambda>(old, new). cells new s)
         (filter (\<lambda>(old, new). cells old ts = time) (zip (rows t) (rows t'))) =
         map (\<lambda>v. Some (Fin (100 * v / sum_list vs))) vs \<and>
       sum_list (map (\<lambda>v. 100 * v / sum_list vs) vs) = 100)"
proof -
  define g where "g = (\<lambda>row. row\<lparr>cells := (cells row)(s \<mapsto> percentageOfTotal fl s ts t row)\<rparr>)"
  define t' where "t' = newOwidTable (map g (rows t))
      (map (\<lambda>spec. if s = slug spec then spec\<lparr>type := Percentage\<rparr> else spec) (specs t)) t"
  have res: "toPercentageFromEachEntityForEachTime fl s t = Inr t'"
    unfolding t'_def g_def by (rule toPercentage_Inr[OF tc])
  have rows': "rows t' = map g (rows t)" by (simp add: t'_def)
  have specs': "specs t' = map (\<lambda>spec. if slug spec = s then spec\<lparr>type := Percentage\<rparr> else spec) (specs t)"
    by (simp add: t'_def eq_commute)
  have shares: "map (\<lambda>(old, new). cells new s)
         (filter (\<lambda>(old, new). cells old ts = time) (zip (rows t) (rows t'))) =
         map (\<lambda>v. Some (Fin (100 * v / sum_list vs))) vs \<and>
       sum_list (map (\<lambda>v. 100 * v / sum_list vs) vs) = 100"
    if vals: "map (\<lambda>row. cells row s) (filter (\<lambda>row. cells row ts = time) (rows t)) =
        map (\<lambda>v. Some (Fin v)) vs"
      and tot: "totalAtTime fl s ts t time = Some (Fin (sum_list vs))"
      and nz: "sum_list vs \<noteq> 0"
      and exact: "\<forall>v\<in>set vs. fl (100 * v) = Fin (100 * v) \<and>
                    fl (100 * v / sum_list vs) = Fin (100 * v / sum_list vs)"
    for time vs
  proof -
    have "map (\<lambda>(old, new). cells new s)
            (filter (\<lambda>(old, new). cells old ts = time) (zip (rows t) (rows t'))) =
          map (\<lambda>row. cells (g row) s) (filter (\<lambda>row. cells row ts = time) (rows t))"
      unfolding rows' by (rule zip_map_filter)
    also have "\<dots> = map (\<lambda>row. Some (js_div fl (js_mul fl (Fin 100) (toNumber (cells row s)))
          (Fin (sum_list vs)))) (filter (\<lambda>row. cells row ts = time) (rows t))"
      by (rule map_cong) (auto simp: g_def percentageOfTotal_def tot)
    also have "\<dots> = map (\<lambda>c. Some (js_div fl (js_mul fl (Fin 100) (toNumber c)) (Fin (sum_list vs))))
          (map (\<lambda>row. cells row s) (filter (\<lambda>row. cells row ts = time) (rows t)))"
      by (simp add: comp_def)
    also have "\<dots> = map (\<lambda>v. Some (js_div fl (fl (100 * v)) (Fin (sum_list vs)))) vs"
      unfolding vals by (simp add: comp_def)
    also have "\<dots> = map (\<lambda>v. Some (Fin (100 * v / sum_list vs))) vs"
      by (rule map_cong) (use exact nz in auto)
    finally show ?thesis
      by (simp only: sum_list_percent[OF nz])
  qed
  from res rows' specs' shares show ?thesis
    unfolding g_def percentageOfTotal_def by blast
qed

theorem toPercentageFromEachEntityForEachTime_share_of_total_witness:
  "timeColumn exShares = Some ''year'' \<and>
   map (\<lambda>row. cells row ''GDP'') (filter (\<lambda>row. cells row ''year'' = Some (Fin 2000)) (rows exShares)) =
     map (\<lambda>v. Some (Fin v)) [30, 70] \<and>
   totalAtTime noRounding ''GDP'' ''year'' exShares (Some (Fin 2000)) = Some (Fin (sum_list [30, 70])) \<and>
   sum_list [30, 70 :: real] \<noteq> 0 \<and>
   noRounding (100 * 30) = Fin (100 * 30) \<and>
   noRounding (100 * 30 / sum_list [30, 70]) = Fin (100 * 30 / sum_list [30, 70]) \<and>
   noRounding (100 * 70) = Fin (100 * 70) \<and>
   noRounding (100 * 70 / sum_list [30, 70]) = Fin (100 * 70 / sum_list [30, 70]) \<and>
   (\<exists>t'. toPercentageFromEachEntityForEachTime noRounding ''GDP'' exShares = Inr t' \<and>
      map (\<lambda>row. cells row ''GDP'') (rows t') = [Some (Fin 30), Some (Fin 70)] \<and>
      map type (specs t') = [Percentage] \<and>
      map (\<lambda>(old, new). cells new ''GDP'')
        (filter (\<lambda>(old, new). cells old ''year'' = Some (Fin 2000)) (zip (rows exShares) (rows t'))) =
        [Some (Fin 30), Some (Fin 70)] \<and>
      sum_list [30, 70 :: real] = 100)"
proof -
  have tc: "timeColumn exShares = Some ''year''"
    by (simp add: exShares_def)
  have vals: "map (\<lambda>row. cells row ''GDP'')
        (filter (\<lambda>row. cells row ''year'' = Some (Fin 2000)) (rows exShares)) =
      map (\<lambda>v. Some (Fin v)) [30, 70]"
    by (simp add: exShares_def exRow_def)
  have tot: "totalAtTime noRounding ''GDP'' ''year'' exShares (Some (Fin 2000)) =
      Some (Fin (sum_list [30, 70]))"
    by (simp add: exShares_def exRow_def totalAtTime_def sum_js_def noRounding_def)
  have nz: "sum_list [30, 70 :: real] \<noteq> 0" by simp
  have exact: "\<forall>v\<in>set [30, 70 :: real]. noRounding (100 * v) = Fin (100 * v) \<and>
      noRounding (100 * v / sum_list [30, 70]) = Fin (100 * v / sum_list [30, 70])"
    by (simp add: noRounding_def)
  from toPercentageFromEachEntityForEachTime_share_of_total[OF tc, where fl = noRounding and s = "''GDP''"]
  obtain t' where t': "toPercentageFromEachEntityForEachTime noRounding ''GDP'' exShares = Inr t'"
    "rows t' = map (\<lambda>row. row\<lparr>cells := (cells row)(''GDP'' \<mapsto>
        js_div noRounding (js_mul noRounding (Fin 100) (toNumber (cells row ''GDP'')))
          (toNumber (totalAtTime noRounding ''GDP'' ''year'' exShares (cells row ''year''))))\<rparr>)
        (rows exShares)"
    "specs t' = map (\<lambda>spec. if slug spec = ''GDP'' then spec\<lparr>type := Percentage\<rparr> else spec)
        (specs exShares)"
    "\<forall>time vs.
       map (\<lambda>row. cells row ''GDP'') (filter (\<lambda>row. cells row ''year'' = time) (rows exShares)) =
         map (\<lambda>v. Some (Fin v)) vs \<longrightarrow>
       totalAtTime noRounding ''GDP'' ''year'' exShares time = Some (Fin (sum_list vs)) \<longrightarrow>
       sum_list vs \<noteq> 0 \<longrightarrow>
       (\<forall>v\<in>set vs. noRounding (100 * v) = Fin (100 * v) \<and>
                    noRounding (100 * v / sum_list vs) = Fin (100 * v / sum_list vs)) \<longrightarrow>
       map (\<lambda>(old, new). cells new ''GDP'')
         (filter (\<lambda>(old, new). cells old ''year'' = time) (zip (rows exShares) (rows t'))) =
         map (\<lambda>v. Some (Fin (100 * v / sum_list vs))) vs \<and>
       sum_list (map (\<lambda>v. 100 * v / sum_list vs) vs) = 100"
    by blast
  have cellsOf: "map (\<lambda>row. cells row ''GDP'') (rows t') = [Some (Fin 30), Some (Fin 70)]"
    unfolding t'(2)
    by (simp add: exShares_def exRow_def totalAtTime_def sum_js_def noRounding_def)
  have typesOf: "map type (specs t') = [Percentage]"
    unfolding t'(3) by (simp add: exShares_def gdpSpec_def)
  from t'(4)[THEN spec, THEN spec, THEN mp, OF vals, THEN mp, OF tot, THEN mp, OF nz, THEN mp, OF exact]
  have shares: "map (\<lambda>(old, new). cells new ''GDP'')
        (filter (\<lambda>(old, new). cells old ''year'' = Some (Fin 2000)) (zip (rows exShares) (rows t'))) =
        [Some (Fin 30), Some (Fin 70)]"
    by simp
  have hundred: "sum_list [30, 70 :: real] = 100" by simp
  have e1: "noRounding (100 * 30) = Fin (100 * 30)"
    and e2: "noRounding (100 * 30 / sum_list [30, 70]) = Fin (100 * 30 / sum_list [30, 70])"
    and e3: "noRounding (100 * 70) = Fin (100 * 70)"
    and e4: "noRounding (100 * 70 / sum_list [30, 70]) = Fin (100 * 70 / sum_list [30, 70])"
    by (simp_all add: noRounding_def)
  show ?thesis
    by (intro conjI exI[of _ t']) (fact tc vals tot nz e1 e2 e3 e4 t'(1) cellsOf typesOf shares hundred)+
qed

text \<open>
  The results of one time do not sum to 100 for every table with a nonzero original sum:
  a row without a value at that time is passed over by the sum, its own result is \<open>NaN\<close>,
  and so is the sum of the results.  Nor is the total taken over the rows with the same
  resolved time: a row of a yearly variable and a row of a daily one with the resolved
  time 2010 and the values 30 and 70 do not share their value in the time column \<open>day\<close>,
  and each becomes 100.
\<close>

theorem toPercentageFromEachEntityForEachTime_missing_value_counterexample:
  "map rowTime (rows exMissingValue) = [Fin 2000, Fin 2000] \<and>
   sum_js noRounding (map (\<lambda>row. cells row ''GDP'') (rows exMissingValue)) = Some (Fin 30) \<and>
   map_sum id (\<lambda>t'. map (\<lambda>row. cells row ''GDP'') (rows t'))
     (toPercentageFromEachEntityForEachTime noRounding ''GDP'' exMissingValue) =
     Inr [Some (Fin 100), Some NaN] \<and>
   sum_js noRounding [Some (Fin 100), Some NaN] = Some NaN \<and>
   map rowTime (rows exSharesYearAndDay) = [Fin 2010, Fin 2010] \<and>
   map (\<lambda>row. cells row ''GDP'') (rows exSharesYearAndDay) = [Some (Fin 30), Some (Fin 70)] \<and>
   map_sum id (\<lambda>t'. map (\<lambda>row. cells row ''GDP'') (rows t'))
     (toPercentageFromEachEntityForEachTime noRounding ''GDP'' exSharesYearAndDay) =
     Inr [Some (Fin 100), Some (Fin 100)]"
proof -
  have tc: "timeColumn exMissingValue = Some ''year''"
    by (simp add: exMissingValue_def)
  have tc': "timeColumn exSharesYearAndDay = Some ''day''"
    by (simp add: exSharesYearAndDay_def)
  show ?thesis
    unfolding toPercentage_Inr[OF tc] toPercentage_Inr[OF tc']
    by (simp add: exMissingValue_def exSharesYearAndDay_def exRow_def totalAtTime_def
        percentageOfTotal_def sum_js_def rowTime_def nullish_def noRounding_def)
qed

subsection \<open>Total growth compared to the start time\<close>

text \<open>
  C4.  For slugs that are columns of the table,
  \<open>toTotalGrowthForEachColumnComparedToStartTime(startTime, slugs)\<close> returns a table in
  which every row's value for every listed slug is -100 + 100 * value / comparisonValue,
  where the comparison value is the value of the row's entity for that slug at
  \<open>startTime\<close>; when the entity has no value there the row's value becomes \<open>undefined\<close>,
  without an error.  The other cells are unchanged and the specs of the listed columns get
  the type \<open>PercentChangeOverTime\<close>.  A start value of 100 and a current value of 150 give
  50; an entity absent at the start time gets no value.
\<close>

theorem toTotalGrowthForEachColumnComparedToStartTime_growth:
  assumes cols: "set slugs \<subseteq> slug ` set (specs t)"
  shows "\<exists>t'. toTotalGrowthForEachColumnComparedToStartTime fl startTime slugs t = Inr t' \<and>
    rows t' = map (\<lambda>row. row\<lparr>cells := (\<lambda>c.
        if c \<in> set slugs
        then (case valueAt c t (entityName row) startTime of
                Some comparisonValue \<Rightarrow>
                  Some (js_add fl (Fin (- 100))
                    (js_div fl (js_mul fl (Fin 100) (toNumber (cells row c))) comparisonValue))
              | None \<Rightarrow> None)
        else cells row c)\<rparr>) (rows t) \<and>
    specs t' = map (\<lambda>spec. if slug spec \<in> set slugs then spec\<lparr>type := PercentChangeOverTime\<rparr>
                            else spec) (specs t)"
proof -
  have "traverse (\<lambda>row. growthRow fl startTime t row row slugs) (rows t) =
      Inr (map (\<lambda>row. row\<lparr>cells := (\<lambda>c. if c \<in> set slugs then growthValue fl startTime t row c
                                            else cells row c)\<rparr>) (rows t))"
    by (rule traverse_Inr) (rule growthRow_Inr[OF cols])
  then show ?thesis
    unfolding growthValue_def
    by (simp add: toTotalGrowthForEachColumnComparedToStartTime_def Let_def)
qed

theorem toTotalGrowthForEachColumnComparedToStartTime_growth_witness:
  "set [''GDP''] \<subseteq> slug ` set (specs exGrowth) \<and>
   (\<exists>t'. toTotalGrowthForEachColumnComparedToStartTime noRounding 1950 [''GDP''] exGrowth = Inr t' \<and>
      map (\<lambda>row. cells row ''GDP'') (rows t') = [Some (Fin 0), Some (Fin 50), None])"
proof -
  have cols: "set [''GDP''] \<subseteq> slug ` set (specs exGrowth)"
    by (simp add: exGrowth_def gdpSpec_def)
  from toTotalGrowthForEachColumnComparedToStartTime_growth[OF cols, where fl = noRounding and startTime = 1950]
  obtain t' where t': "toTotalGrowthForEachColumnComparedToStartTime noRounding 1950 [''GDP''] exGrowth = Inr t'"
    "rows t' = map (\<lambda>row. row\<lparr>cells := (\<lambda>c.
        if c \<in> set [''GDP'']
        then (case valueAt c exGrowth (entityName row) 1950 of
                Some comparisonValue \<Rightarrow>
                  Some (js_add noRounding (Fin (- 100))
                    (js_div noRounding (js_mul noRounding (Fin 100) (toNumber (cells row c))) comparisonValue))
              | None \<Rightarrow> None)
        else cells row c)\<rparr>) (rows exGrowth)"
    by blast
  have "map (\<lambda>row. cells row ''GDP'') (rows t') = [Some (Fin 0), Some (Fin 50), None]"
    unfolding t'(2)
    by (simp add: exGrowth_def exRow_def valueAt_def rowTime_def nullish_def noRounding_def)
  with t'(1) cols show ?thesis by (intro conjI exI[of _ t']) simp_all
qed

subsection \<open>Percentage of a zero or absent total\<close>

text \<open>
  C5.  On a table that has a time column \<open>toPercentageFromEachEntityForEachTime\<close> raises no
  error.  The total of a row is the sum, as the method computes it, of the column over the
  rows with the same value in the time column.  When the total is absent, the row's new
  value is \<open>NaN\<close>.  When the total is zero, the new value is never a finite number: it is
  \<open>NaN\<close> for a row without a value, and for a row with a finite value it is \<open>Infinity\<close>,
  \<open>-Infinity\<close> or \<open>NaN\<close> as the product 100 * value is positive, negative or zero.
\<close>

theorem toPercentageFromEachEntityForEachTime_zero_or_absent_total:
  assumes tc: "timeColumn t = Some ts"
  shows "\<exists>t'. toPercentageFromEachEntityForEachTime fl s t = Inr t' \<and>
    length (rows t') = length (rows t) \<and>
    (\<forall>i<length (rows t).
       (totalAtTime fl s ts t (cells (rows t ! i) ts) = None \<longrightarrow>
          cells (rows t' ! i) s = Some NaN) \<and>
       (totalAtTime fl s ts t (cells (rows t ! i) ts) = Some (Fin 0) \<longrightarrow>
          (\<exists>n. cells (rows t' ! i) s = Some n \<and> (\<forall>x. n \<noteq> Fin x)) \<and>
          (cells (rows t ! i) s = None \<longrightarrow> cells (rows t' ! i) s = Some NaN) \<and>
          (\<forall>v. cells (rows t ! i) s = Some (Fin v) \<longrightarrow>
             cells (rows t' ! i) s = Some (signedInf (signOf (fl (100 * v)))))))"
proof -
  define g where "g = (\<lambda>row. row\<lparr>cells := (cells row)(s \<mapsto> percentageOfTotal fl s ts t row)\<rparr>)"
  define t' where "t' = newOwidTable (map g (rows t))
      (map (\<lambda>spec. if s = slug spec then spec\<lparr>type := Percentage\<rparr> else spec) (specs t)) t"
  have res: "toPercentageFromEachEntityForEachTime fl s t = Inr t'"
    unfolding t'_def g_def by (rule toPercentage_Inr[OF tc])
  have rows': "rows t' = map g (rows t)" by (simp add: t'_def)
  have cell: "cells (rows t' ! i) s = Some (percentageOfTotal fl s ts t (rows t ! i))"
    if "i < length (rows t)" for i
    using that by (simp add: rows' g_def)
  have absent: "percentageOfTotal fl s ts t row = NaN"
    if "totalAtTime fl s ts t (cells row ts) = None" for row
    using that by (simp add: percentageOfTotal_def js_div_absent)
  have zero1: "percentageOfTotal fl s ts t row \<noteq> Fin x"
    if "totalAtTime fl s ts t (cells row ts) = Some (Fin 0)" for row x
    using that by (simp add: percentageOfTotal_def js_div_zero signedInf_not_finite)
  have zero2: "percentageOfTotal fl s ts t row = NaN"
    if "totalAtTime fl s ts t (cells row ts) = Some (Fin 0)" "cells row s = None" for row
    using that by (simp add: percentageOfTotal_def)
  have zero3: "percentageOfTotal fl s ts t row = signedInf (signOf (fl (100 * v)))"
    if "totalAtTime fl s ts t (cells row ts) = Some (Fin 0)" "cells row s = Some (Fin v)" for row v
    using that by (simp add: percentageOfTotal_def js_div_zero)
  from res rows' cell absent zero1 zero2 zero3 show ?thesis
    by (intro exI[of _ t']) simp
qed

theorem toPercentageFromEachEntityForEachTime_zero_or_absent_total_witness:
  "timeColumn exCancelling = Some ''year'' \<and>
   totalAtTime noRounding ''GDP'' ''year'' exCancelling (cells (rows exCancelling ! 0) ''year'') =
     Some (Fin 0) \<and>
   cells (rows exCancelling ! 0) ''GDP'' = Some (Fin 5) \<and>
   (\<exists>t'. toPercentageFromEachEntityForEachTime noRounding ''GDP'' exCancelling = Inr t' \<and>
      cells (rows t' ! 0) ''GDP'' = Some PosInf)"
proof -
  have tc: "timeColumn exCancelling = Some ''year''"
    by (simp add: exCancelling_def)
  have total: "totalAtTime noRounding ''GDP'' ''year'' exCancelling
      (cells (rows exCancelling ! 0) ''year'') = Some (Fin 0)"
    by (simp add: exCancelling_def exRow_def totalAtTime_def sum_js_def noRounding_def)
  have val: "cells (rows exCancelling ! 0) ''GDP'' = Some (Fin 5)"
    by (simp add: exCancelling_def exRow_def)
  have len: "0 < length (rows exCancelling)"
    by (simp add: exCancelling_def)
  from toPercentageFromEachEntityForEachTime_zero_or_absent_total[OF tc, where fl = noRounding and s = "''GDP''"]
  obtain t' where t': "toPercentageFromEachEntityForEachTime noRounding ''GDP'' exCancelling = Inr t'"
    "\<forall>i<length (rows exCancelling).
       (totalAtTime noRounding ''GDP'' ''year'' exCancelling (cells (rows exCancelling ! i) ''year'') = None \<longrightarrow>
          cells (rows t' ! i) ''GDP'' = Some NaN) \<and>
       (totalAtTime noRounding ''GDP'' ''year'' exCancelling (cells (rows exCancelling ! i) ''year'') =
          Some (Fin 0) \<longrightarrow>
          (\<exists>n. cells (rows t' ! i) ''GDP'' = Some n \<and> (\<forall>x. n \<noteq> Fin x)) \<and>
          (cells (rows exCancelling ! i) ''GDP'' = None \<longrightarrow> cells (rows t' ! i) ''GDP'' = Some NaN) \<and>
          (\<forall>v. cells (rows exCancelling ! i) ''GDP'' = Some (Fin v) \<longrightarrow>
             cells (rows t' ! i) ''GDP'' = Some (signedInf (signOf (noRounding (100 * v))))))"
    by blast
  from t'(2) len total val
  have "cells (rows t' ! 0) ''GDP'' = Some (signedInf (signOf (noRounding (100 * 5))))"
    by blast
  then have inf: "cells (rows t' ! 0) ''GDP'' = Some PosInf"
    by (simp add: signedInf_def noRounding_def)
  show ?thesis
    by (intro conjI exI[of _ t']) (fact tc total val t'(1) inf)+
qed

text \<open>
  The cell is not always \<open>undefined\<close> or \<open>NaN\<close>: the values 5 and -5 of one year have the
  sum zero and become \<open>Infinity\<close> and \<open>-Infinity\<close>.  Nor is the sum taken over the rows with
  the same resolved time: a row of a yearly variable and a row of a daily one with the
  resolved time 2010 and the values 5 and -5, whose sum is zero, do not share their value
  in the time column \<open>day\<close>, and each becomes the finite value 100.
\<close>

theorem toPercentageFromEachEntityForEachTime_infinite_share_counterexample:
  "map rowTime (rows exCancelling) = [Fin 2000, Fin 2000] \<and>
   sum_js noRounding (map (\<lambda>row. cells row ''GDP'') (rows exCancelling)) = Some (Fin 0) \<and>
   map_sum id (\<lambda>t'. map (\<lambda>row. cells row ''GDP'') (rows t'))
     (toPercentageFromEachEntityForEachTime noRounding ''GDP'' exCancelling) =
     Inr [Some PosInf, Some NegInf] \<and>
   map rowTime (rows exCancellingYearAndDay) = [Fin 2010, Fin 2010] \<and>
   sum_js noRounding (map (\<lambda>row. cells row ''GDP'') (rows exCancellingYearAndDay)) = Some (Fin 0) \<and>
   map_sum id (\<lambda>t'. map (\<lambda>row. cells row ''GDP'') (rows t'))
     (toPercentageFromEachEntityForEachTime noRounding ''GDP'' exCancellingYearAndDay) =
     Inr [Some (Fin 100), Some (Fin 100)]"
proof -
  have tc: "timeColumn exCancelling = Some ''year''"
    by (simp add: exCancelling_def)
  have tc': "timeColumn exCancellingYearAndDay = Some ''day''"
    by (simp add: exCancellingYearAndDay_def)
  show ?thesis
    unfolding toPercentage_Inr[OF tc] toPercentage_Inr[OF tc']
    by (simp add: exCancelling_def exCancellingYearAndDay_def exRow_def totalAtTime_def
        percentageOfTotal_def sum_js_def rowTime_def nullish_def noRounding_def signedInf_def)
qed

subsection \<open>Population filtering\<close>

text \<open>
  C6.  On a table whose selection is made of whole entities, \<open>filterByPopulation(minPop)\<close>
  keeps no row whose entity has a known (nonzero) population below \<open>minPop\<close> and is not
  selected, and it keeps every row of every selected entity, in order, whatever its
  population.  With threshold 1e8 and a population of 1e6 for A and B, the selected entity
  A stays and the unselected entity B is dropped.
\<close>

theorem filterByPopulation_selection_survives:
  assumes "selectionByEntity t"
  shows "(\<forall>row\<in>set (rows (filterByPopulation pm (Fin minPop) t)).
           \<not> (\<exists>p. pm (entityName row) = Some (Fin p) \<and> p \<noteq> 0 \<and> p < minPop \<and>
                \<not> isEntitySelected t (entityName row))) \<and>
         filter (\<lambda>row. isEntitySelected t (entityName row)) (rows (filterByPopulation pm (Fin minPop) t)) =
           filter (\<lambda>row. isEntitySelected t (entityName row)) (rows t)"
proof
  show "\<forall>row\<in>set (rows (filterByPopulation pm (Fin minPop) t)).
           \<not> (\<exists>p. pm (entityName row) = Some (Fin p) \<and> p \<noteq> 0 \<and> p < minPop \<and>
                \<not> isEntitySelected t (entityName row))"
  proof
    fix row assume "row \<in> set (rows (filterByPopulation pm (Fin minPop) t))"
    then obtain ref where ref: "snd ref = row"
      "falsy (pm (entityName row)) \<or> isSelected t ref \<or> js_ge (toNumber (pm (entityName row))) (Fin minPop)"
      by (auto simp: rows_filterByPopulation)
    show "\<not> (\<exists>p. pm (entityName row) = Some (Fin p) \<and> p \<noteq> 0 \<and> p < minPop \<and>
                \<not> isEntitySelected t (entityName row))"
    proof
      assume "\<exists>p. pm (entityName row) = Some (Fin p) \<and> p \<noteq> 0 \<and> p < minPop \<and>
                \<not> isEntitySelected t (entityName row)"
      then obtain p where p: "pm (entityName row) = Some (Fin p)" "p \<noteq> 0" "p < minPop"
        "\<not> isEntitySelected t (entityName row)" by blast
      from ref(2) p(1,2,3) have "isSelected t ref" by simp
      from isSelected_isEntitySelected[OF this] ref(1) p(4) show False by simp
    qed
  qed
next
  show "filter (\<lambda>row. isEntitySelected t (entityName row)) (rows (filterByPopulation pm (Fin minPop) t)) =
           filter (\<lambda>row. isEntitySelected t (entityName row)) (rows t)"
    unfolding filterByPopulation_def
    using assms by (intro filter_rows_filterBy) (simp add: selectionByEntity_def Let_def)
qed

theorem filterByPopulation_selection_survives_witness:
  "selectionByEntity exPopTable \<and>
   filter (\<lambda>row. isEntitySelected exPopTable (entityName row))
     (rows (filterByPopulation exPopulationMap (Fin 100000000) exPopTable)) =
     [exRow ''A'' 0 [(''year'', Fin 2000)]] \<and>
   map entityName (rows (filterByPopulation exPopulationMap (Fin 100000000) exPopTable)) = [''A'', ''C'']"
proof -
  have inv: "selectionByEntity exPopTable"
    unfolding exPopTable_def by (rule selectionByEntity_setSelectedEntities)
  have "filter (\<lambda>row. isEntitySelected exPopTable (entityName row)) (rows exPopTable) =
      [exRow ''A'' 0 [(''year'', Fin 2000)]]"
    by (simp add: exPopTable_eval isEntitySelected_iff exRow_def)
  with filterByPopulation_selection_survives[OF inv, of exPopulationMap 100000000] inv exPop_names
  show ?thesis by simp
qed

subsection \<open>Selected rows only\<close>

text \<open>
  C7.  \<open>filterBySelectedOnly()\<close> is idempotent on the rows: applied to the table that a
  first application returned, it drops no further row.
\<close>

theorem filterBySelectedOnly_idempotent:
  "rows (filterBySelectedOnly (filterBySelectedOnly t)) = rows (filterBySelectedOnly t)"
proof -
  define t1 where "t1 = filterBySelectedOnly t"
  define rs1 where "rs1 = map snd (filter (isSelected t) (rowRefs t))"
  have t1: "t1 = newOwidTable rs1 (specs t) t"
    by (simp add: t1_def filterBySelectedOnly_def filterBy_def rs1_def)
  have all: "isSelected t1 ref" if "ref \<in> set (rowRefs t1)" for ref
  proof -
    from that have mem: "ref \<in> set (enumerate 0 rs1)" by (simp add: t1 rowRefs_newOwidTable)
    then have "snd ref \<in> snd ` set (enumerate 0 rs1)" by (rule imageI)
    then have "snd ref \<in> set rs1" by (simp only: snd_set_enumerate)
    then obtain ref0 where "isSelected t ref0" "snd ref0 = snd ref"
      by (auto simp: rs1_def)
    then have "entityName (snd ref) \<in> set (selectedEntityNames t)"
      using selected_name[of ref0 t] by (simp add: isSelected_def)
    with mem show ?thesis
      by (simp add: isSelected_def t1 selectedRows_newOwidTable)
  qed
  have "rows (filterBySelectedOnly t1) = map snd (filter (isSelected t1) (rowRefs t1))"
    by (simp add: filterBySelectedOnly_def rows_filterBy)
  also have "filter (isSelected t1) (rowRefs t1) = rowRefs t1"
    using all by (simp add: filter_id_conv)
  finally show ?thesis by (simp add: t1_def)
qed

subsection \<open>Legacy ingestion of an unknown entity id\<close>

text \<open>
  C8.  When the \<open>entities\<close> array of some variable holds an id that the entity key lacks,
  \<open>legacyVariablesToTabular\<close> and \<open>fromLegacy\<close> fail, and the error is the
  \<open>TypeError\<close> of reading \<open>.name\<close> of \<open>undefined\<close>, which carries neither the id nor the
  variable.
\<close>

theorem legacyVariablesToTabular_missing_entity_TypeError:
  assumes "(key, variable) \<in> set (variables json)"
    and "variableEntities variable = Some idList"
    and "i \<in> set idList"
    and "entityKey json i = None"
  shows "legacyVariablesToTabular fl diffDays epoch json = Inl TypeError \<and>
         fromLegacy fl diffDays epoch timeColumnOf json dimensions = Inl TypeError"
proof -
  have "variableRows fl diffDays epoch (entityKey json) variable = Inl TypeError"
    using assms(2,3,4) by (rule variableRows_missing)
  with assms(1) have "variablesLoop fl diffDays epoch (entityKey json) (variables json) acc = Inl TypeError"
    for acc by (rule variablesLoop_missing)
  then have "legacyVariablesToTabular fl diffDays epoch json = Inl TypeError"
    by (simp add: legacyVariablesToTabular_def Let_def)
  then show ?thesis by (simp add: fromLegacy_def)
qed

theorem legacyVariablesToTabular_missing_entity_TypeError_witness:
  "(''1'', snd (hd (variables exPayload))) \<in> set (variables exPayload) \<and>
   variableEntities (snd (hd (variables exPayload))) = Some [5] \<and>
   5 \<in> set [5::int] \<and>
   entityKey exPayload 5 = None \<and>
   legacyVariablesToTabular noRounding (\<lambda>a b. 0) ''2020-01-21'' exPayload = Inl TypeError \<and>
   fromLegacy noRounding (\<lambda>a b. 0) ''2020-01-21'' (\<lambda>sp. Some ''year'') exPayload [] = Inl TypeError"
proof -
  have a: "(''1'', snd (hd (variables exPayload))) \<in> set (variables exPayload)"
    by (simp add: exPayload_def)
  have b: "variableEntities (snd (hd (variables exPayload))) = Some [5]"
    by (simp add: exPayload_def)
  have c: "5 \<in> set [5::int]" by simp
  have d: "entityKey exPayload 5 = None" by (simp add: exPayload_def)
  from legacyVariablesToTabular_missing_entity_TypeError[OF a b c d] a b c d
  show ?thesis by blast
qed

text \<open>
  The error is not a \<open>ReferentialIntegrityError\<close> naming the id and the variable: the
  payload whose variable 1 names the unknown id 5 fails with the plain \<open>TypeError\<close>.
\<close>

theorem legacyVariablesToTabular_no_ReferentialIntegrityError_counterexample:
  "entityKey exPayload 5 = None \<and>
   legacyVariablesToTabular noRounding (\<lambda>a b. 0) ''2020-01-21'' exPayload = Inl TypeError \<and>
   legacyVariablesToTabular noRounding (\<lambda>a b. 0) ''2020-01-21'' exPayload \<noteq> Inl (ReferentialIntegrityError 5 1)"
  by (simp add: legacyVariablesToTabular_def exPayload_def variableRows_def entityMetaOf_def Let_def)

subsection \<open>Selecting by code and by id\<close>

text \<open>
  C9.  \<open>setSelectedEntitiesByCode\<close> and \<open>setSelectedEntitiesByEntityId\<close> raise no error and
  select the rows of the entities their inputs resolve to; an input that resolves to no
  entity selects nothing.  The by-code method returns the codes that resolved, in the
  order given; the by-id method returns the table itself.
\<close>

theorem setSelectedEntities_by_code_and_by_id:
  "fst (setSelectedEntitiesByCode codes t) =
     Codes (filter (\<lambda>code. \<exists>row\<in>set (rows t). codeKey row = code) codes) \<and>
   set (selectedRows (snd (setSelectedEntitiesByCode codes t))) =
     {ref \<in> set (rowRefs t). \<exists>code\<in>set codes.
        entityCodeToNameMap t code = Some (entityName (snd ref))} \<and>
   rows (snd (setSelectedEntitiesByCode codes t)) = rows t \<and>
   fst (setSelectedEntitiesByEntityId ids t) = TableValue (snd (setSelectedEntitiesByEntityId ids t)) \<and>
   set (selectedRows (snd (setSelectedEntitiesByEntityId ids t))) =
     {ref \<in> set (rowRefs t). \<exists>i\<in>set ids.
        entityIdToNameMap t i = Some (entityName (snd ref))} \<and>
   rows (snd (setSelectedEntitiesByEntityId ids t)) = rows t"
proof -
  have codes: "filter (\<lambda>code. entityCodeToNameMap t code \<noteq> None) codes =
      filter (\<lambda>code. \<exists>row\<in>set (rows t). codeKey row = code) codes"
    by (simp only: entityCodeToNameMap_resolves)
  have sel1: "set (selectedRows (snd (setSelectedEntitiesByCode codes t))) =
     {ref \<in> set (rowRefs t). \<exists>code\<in>set codes.
        entityCodeToNameMap t code = Some (entityName (snd ref))}"
    by (force simp: setSelectedEntitiesByCode_def Let_def selectedRows_setSelectedEntities image_iff)
  have sel2: "set (selectedRows (snd (setSelectedEntitiesByEntityId ids t))) =
     {ref \<in> set (rowRefs t). \<exists>i\<in>set ids.
        entityIdToNameMap t i = Some (entityName (snd ref))}"
    by (force simp: setSelectedEntitiesByEntityId_def Let_def selectedRows_setSelectedEntities image_iff)
  from codes sel1 sel2 show ?thesis
    by (simp add: setSelectedEntitiesByCode_def setSelectedEntitiesByEntityId_def Let_def)
qed

text \<open>
  The by-id method does not return the ids that resolved: asked for the ids 0 and 7, of
  which only 0 is in the table, it selects entity A and returns the table, not the list
  holding 0.
\<close>

theorem setSelectedEntitiesByEntityId_returns_table_counterexample:
  "entityIdToNameMap exCodes 0 = Some ''A'' \<and> entityIdToNameMap exCodes 7 = None \<and>
   fst (setSelectedEntitiesByEntityId [0, 7] exCodes) \<noteq> Ids [0] \<and>
   map (\<lambda>ref. entityName (snd ref)) (selectedRows (snd (setSelectedEntitiesByEntityId [0, 7] exCodes))) = [''A''] \<and>
   fst (setSelectedEntitiesByCode [''AAA'', ''ZZZ''] exCodes) = Codes [''AAA'']"
  by (simp add: setSelectedEntitiesByEntityId_def setSelectedEntitiesByCode_def Let_def
      entityIdToNameMap_def entityCodeToNameMap_def exCodes_def setSelectedEntities_def
      selectRows_def clearSelection_def rowRefs_def uniq_def enumerate_eq_zip upt_rec)

subsection \<open>Entities without a known population\<close>

text \<open>
  C10.  \<open>filterByPopulation(minPop)\<close> keeps every row whose entity has no entry in the
  population map or has the entry zero, whatever the threshold and the selection: the rows
  of such entities are the same, in the same order, before and after.  A row that is
  dropped belongs to an entity with a known nonzero population.
\<close>

theorem filterByPopulation_keeps_unknown_population:
  "filter (unknownPopulation pm) (rows (filterByPopulation pm minPop t)) =
     filter (unknownPopulation pm) (rows t) \<and>
   (\<forall>ref\<in>set (rowRefs t). snd ref \<notin> set (rows (filterByPopulation pm minPop t)) \<longrightarrow>
      (\<exists>p. pm (entityName (snd ref)) = Some p \<and> p \<noteq> Fin 0))"
proof
  show "filter (unknownPopulation pm) (rows (filterByPopulation pm minPop t)) =
     filter (unknownPopulation pm) (rows t)"
    unfolding filterByPopulation_def
    by (rule filter_rows_filterBy) (auto simp: unknownPopulation_def Let_def)
next
  show "\<forall>ref\<in>set (rowRefs t). snd ref \<notin> set (rows (filterByPopulation pm minPop t)) \<longrightarrow>
      (\<exists>p. pm (entityName (snd ref)) = Some p \<and> p \<noteq> Fin 0)"
  proof (intro ballI impI)
    fix ref assume ref: "ref \<in> set (rowRefs t)"
      and out: "snd ref \<notin> set (rows (filterByPopulation pm minPop t))"
    have "\<not> falsy (pm (entityName (snd ref)))"
    proof
      assume "falsy (pm (entityName (snd ref)))"
      with ref have "snd ref \<in> set (rows (filterByPopulation pm minPop t))"
        by (force simp: rows_filterByPopulation)
      with out show False by simp
    qed
    then show "\<exists>p. pm (entityName (snd ref)) = Some p \<and> p \<noteq> Fin 0"
      by (cases "pm (entityName (snd ref))") auto
  qed
qed

theorem filterByPopulation_keeps_unknown_population_witness:
  "filter (unknownPopulation exPopulationMap)
     (rows (filterByPopulation exPopulationMap (Fin 100000000) exPopTable)) =
     [exRow ''C'' 2 [(''year'', Fin 2000)]]"
proof -
  have "filter (unknownPopulation exPopulationMap) (rows exPopTable) = [exRow ''C'' 2 [(''year'', Fin 2000)]]"
    by (simp add: exPopTable_eval unknownPopulation_def exPopulationMap_def exRow_def)
  with filterByPopulation_keeps_unknown_population[of exPopulationMap "Fin 100000000" exPopTable]
  show ?thesis by simp
qed

end
